theory Spec2Isabelle
  imports Complex_Main
begin

section \<open>Errors, panics and results\<close>

text \<open>
  A Go \<^verbatim>\<open>error\<close> value is modelled by the call that builds it in the source:
  \<^verbatim>\<open>errors.New("...")\<close> carries its message, \<^verbatim>\<open>fmt.Errorf(format, arg)\<close> carries the
  format string and its argument. An argument that is a pointer is printed by Go as an
  address, which the model does not know: it is \<open>ArgPointer\<close>.
  \<open>None :: error option\<close> is the \<^verbatim>\<open>nil\<close> error.
\<close>

datatype fmt_arg = ArgString string | ArgPointer

datatype error = errors_New string | fmt_Errorf string fmt_arg

text \<open>A call either returns or panics (\<^verbatim>\<open>panic("...")\<close>, or a nil dereference).\<close>

datatype 'a outcome = Returns 'a | Panics string

definition nil_dereference :: string where
  "nil_dereference = ''invalid memory address or nil pointer dereference''"

text \<open>The two sentinel errors of package \<^verbatim>\<open>io\<close> that the stream decoder hands back.\<close>

definition io_EOF :: error where
  "io_EOF = errors_New ''EOF''"

definition io_ErrUnexpectedEOF :: error where
  "io_ErrUnexpectedEOF = errors_New ''unexpected EOF''"

section \<open>The TCP transport (tcp\_transport.go)\<close>

text \<open>
  Modelled from the spec: the declarations of \<^verbatim>\<open>SessionCompression\<close> and
  \<^verbatim>\<open>SessionEncryption\<close> are not part of the sources at hand. Like \<^verbatim>\<open>NotificationEvent\<close>
  in notification.go they are taken to be string types; the wire names \<^verbatim>\<open>none\<close> and
  \<^verbatim>\<open>tls\<close> are those of the spec's session scenario.
\<close>

type_synonym SessionCompression = string
type_synonym SessionEncryption = string

definition SessionCompressionNone :: SessionCompression where
  "SessionCompressionNone = ''none''"

definition SessionEncryptionNone :: SessionEncryption where
  "SessionEncryptionNone = ''none''"

definition SessionEncryptionTLS :: SessionEncryption where
  "SessionEncryptionTLS = ''tls''"

definition DefaultReadLimit :: int where
  "DefaultReadLimit = 8192 * 1024"

text \<open>
  A \<^verbatim>\<open>net.Conn\<close> is a socket, or the TLS connection that \<^verbatim>\<open>tls.Server\<close> or
  \<^verbatim>\<open>tls.Client\<close> lays over an existing connection. The writer and the reader built by
  \<^verbatim>\<open>setConn\<close> are the connection itself, or the connection doubled by the trace writer.
\<close>

datatype net_Conn = Socket nat | tls_Server net_Conn | tls_Client net_Conn

datatype io_Writer = ConnWriter net_Conn | io_MultiWriter io_Writer

datatype io_Reader = ConnReader net_Conn | io_TeeReader io_Reader

datatype tls_Config = tls_Config string

text \<open>A context is its deadline, if it has one; \<open>None :: Context option\<close> is \<^verbatim>\<open>nil\<close>.\<close>

type_synonym Context = "nat option"

record LimitedReader =
  R :: "io_Reader option"
  N :: int

text \<open>
  The state of a \<^verbatim>\<open>json.Decoder\<close> that matters here: how many bytes it has read from
  its source beyond the values it has returned, and the error it keeps once reading has
  failed (every later \<^verbatim>\<open>Decode\<close> returns that error again).
\<close>

record Decoder =
  buffered :: nat
  dec_err :: "error option"

record TCPTransport =
  ReadLimit :: int
  TraceWriter :: bool
  conn :: "net_Conn option"
  encoder :: "io_Writer option"
  decoder :: "Decoder option"
  limitedReader :: LimitedReader
  TLSConfig :: "tls_Config option"
  encryption :: SessionEncryption
  server :: bool

text \<open>
  What the network does during one call is a parameter of that call: the result of each
  operation on the connection, and for a receive, what arrives. Every method returns,
  beside its result and the transport as it leaves it, the list of the operations it
  carried out on the connection.
\<close>

datatype net_call = NetSetWriteDeadline | NetSetReadDeadline | NetHandshake
  | NetEncode | NetDecode | NetClose

text \<open>
  \<open>Frame len parsed ahead\<close>: the next JSON value of the stream takes \<open>len\<close> bytes,
  unmarshalling it into the raw envelope gives \<open>parsed\<close>, and the read that completes
  the value would take in \<open>ahead\<close> bytes beyond it: what has arrived behind the value,
  as far as the decoder's buffer has room for it. \<open>ReadError e\<close>: reading the connection
  fails with \<open>e\<close> before a byte of the next value arrives. \<open>PartialFrame got e\<close>:
  \<open>got\<close> bytes of the next value arrive, fewer than the value still needs, and then
  reading the connection fails with \<open>e\<close>.
\<close>

datatype 'r inbound = Frame nat "error + 'r" nat | ReadError error | PartialFrame nat error

record 'r net_env =
  SetWriteDeadline_result :: "error option"
  SetReadDeadline_result :: "error option"
  Handshake_result :: "error option"
  Encode_result :: "error option"
  Close_result :: "error option"
  arriving :: "'r inbound"

definition GetSupportedCompression :: "TCPTransport \<Rightarrow> SessionCompression list" where
  "GetSupportedCompression t = [SessionCompressionNone]"

definition GetCompression :: "TCPTransport \<Rightarrow> SessionCompression" where
  "GetCompression t = SessionCompressionNone"

definition SetCompression ::
  "Context option \<Rightarrow> SessionCompression \<Rightarrow> TCPTransport
    \<Rightarrow> error option outcome \<times> TCPTransport \<times> net_call list" where
  "SetCompression ctx c t =
     (Returns (Some (fmt_Errorf ''compression '%v' is not supported'' (ArgString c))), t, [])"

definition GetSupportedEncryption :: "TCPTransport \<Rightarrow> SessionEncryption list" where
  "GetSupportedEncryption t = [SessionEncryptionNone, SessionEncryptionTLS]"

definition GetEncryption :: "TCPTransport \<Rightarrow> SessionEncryption" where
  "GetEncryption t = encryption t"

definition setConn :: "net_Conn \<Rightarrow> TCPTransport \<Rightarrow> TCPTransport" where
  "setConn c t =
     (let writer = (if TraceWriter t then io_MultiWriter (ConnWriter c) else ConnWriter c);
          reader = (if TraceWriter t then io_TeeReader (ConnReader c) else ConnReader c);
          limit = (if ReadLimit t = 0 then DefaultReadLimit else ReadLimit t)
      in t\<lparr>conn := Some c,
            encoder := Some writer,
            ReadLimit := limit,
            limitedReader := \<lparr>R = Some reader, N = limit\<rparr>,
            decoder := Some \<lparr>buffered = 0, dec_err = None\<rparr>\<rparr>)"

definition ensureOpen :: "TCPTransport \<Rightarrow> error option" where
  "ensureOpen t =
     (if conn t = None then Some (errors_New ''transport is not open'') else None)"

definition IsConnected :: "TCPTransport \<Rightarrow> bool" where
  "IsConnected t = (conn t \<noteq> None)"

definition SetEncryption ::
  "'r net_env \<Rightarrow> Context option \<Rightarrow> SessionEncryption \<Rightarrow> TCPTransport
    \<Rightarrow> error option outcome \<times> TCPTransport \<times> net_call list" where
  "SetEncryption env ctx e t =
     (if e = encryption t then (Returns None, t, [])
      else if e = SessionEncryptionNone then
        (Returns (Some (errors_New ''cannot downgrade from tls to none encryption'')), t, [])
      else if e = SessionEncryptionTLS \<and> TLSConfig t = None then
        (Returns (Some (errors_New ''tls config must be defined'')), t, [])
      else
        (case ctx of
           None \<Rightarrow> (Panics nil_dereference, t, [])
         | Some deadline \<Rightarrow>
            (case conn t of
               None \<Rightarrow> (Panics nil_dereference, t, [])
             | Some c \<Rightarrow>
                (let tlsConn = (if server t then tls_Server c else tls_Client c) in
                 case SetWriteDeadline_result env of
                   Some e1 \<Rightarrow> (Returns (Some e1), t, [NetSetWriteDeadline])
                 | None \<Rightarrow>
                    (case SetReadDeadline_result env of
                       Some e2 \<Rightarrow>
                         (Returns (Some e2), t, [NetSetWriteDeadline, NetSetReadDeadline])
                     | None \<Rightarrow>
                        (case Handshake_result env of
                           Some e3 \<Rightarrow>
                             (Returns (Some e3), t,
                              [NetSetWriteDeadline, NetSetReadDeadline, NetHandshake])
                         | None \<Rightarrow>
                             (Returns None,
                              (setConn tlsConn t)\<lparr>encryption := SessionEncryptionTLS\<rparr>,
                              [NetSetWriteDeadline, NetSetReadDeadline, NetHandshake])))))))"

definition Send ::
  "'r net_env \<Rightarrow> Context option \<Rightarrow> 'e option \<Rightarrow> TCPTransport
    \<Rightarrow> error option outcome \<times> TCPTransport \<times> net_call list" where
  "Send env ctx e t =
     (if ctx = None then (Panics ''nil context'', t, [])
      else if e = None then (Panics ''nil envelope'', t, [])
      else
        (case ensureOpen t of
           Some e0 \<Rightarrow> (Returns (Some e0), t, [])
         | None \<Rightarrow>
            (case SetWriteDeadline_result env of
               Some e1 \<Rightarrow> (Returns (Some e1), t, [NetSetWriteDeadline])
             | None \<Rightarrow>
                (case encoder t of
                   None \<Rightarrow> (Panics nil_dereference, t, [NetSetWriteDeadline])
                 | Some w \<Rightarrow>
                     (Returns (Encode_result env), t, [NetSetWriteDeadline, NetEncode])))))"

text \<open>
  \<^verbatim>\<open>io.LimitedReader\<close> under \<^verbatim>\<open>json.Decoder\<close>: the reader hands out at most \<open>N\<close> bytes
  and then reports end of file; the decoder reads until it holds one whole value, keeps
  what it has read beyond it for the next call, and turns an end of file that finds it
  holding bytes of an unfinished value into \<^verbatim>\<open>io.ErrUnexpectedEOF\<close>. Any other error
  of a read is returned as it is. The decoder keeps the error it returns.
\<close>

definition eof_error :: "nat \<Rightarrow> error" where
  "eof_error held = (if held = 0 then io_EOF else io_ErrUnexpectedEOF)"

text \<open>
  The stream breaks after \<open>got\<close> bytes of the next value. The reader hands out as many
  of them as \<open>N\<close> allows; when that uses \<open>N\<close> up, the read after it is the reader's end
  of file, otherwise it is the error \<open>e\<close> of the connection.
\<close>

definition broken_read ::
  "nat \<Rightarrow> error \<Rightarrow> Decoder \<Rightarrow> LimitedReader \<Rightarrow> (error + 'r) \<times> Decoder \<times> LimitedReader" where
  "broken_read got e d l =
     (let taken = (if N l \<le> int got then nat (max (N l) 0) else got);
          e' = (if N l \<le> int got \<or> e = io_EOF then eof_error (buffered d + taken) else e)
      in (Inl e', d\<lparr>buffered := buffered d + taken, dec_err := Some e'\<rparr>,
          l\<lparr>N := N l - int taken\<rparr>))"

definition Decode ::
  "'r inbound \<Rightarrow> Decoder \<Rightarrow> LimitedReader \<Rightarrow> (error + 'r) \<times> Decoder \<times> LimitedReader" where
  "Decode inb d l =
     (case dec_err d of
        Some e \<Rightarrow> (Inl e, d, l)
      | None \<Rightarrow>
         (case inb of
            ReadError e \<Rightarrow> broken_read 0 e d l
          | PartialFrame got e \<Rightarrow> broken_read got e d l
          | Frame len parsed ahead \<Rightarrow>
              (if len \<le> buffered d then (parsed, d\<lparr>buffered := buffered d - len\<rparr>, l)
               else
                 (let need = len - buffered d in
                  if N l < int need then
                    (let got = nat (max (N l) 0); e' = eof_error (buffered d + got)
                     in (Inl e', d\<lparr>buffered := buffered d + got, dec_err := Some e'\<rparr>,
                         l\<lparr>N := N l - int got\<rparr>))
                  else
                    (let extra = min ahead (nat (N l) - need)
                     in (parsed, d\<lparr>buffered := extra\<rparr>,
                         l\<lparr>N := N l - int need - int extra\<rparr>))))))"

text \<open>
  \<^verbatim>\<open>rawEnvelope.ToEnvelope\<close> is not part of the sources at hand; \<open>Receive\<close> takes it as
  its first argument.
\<close>

definition Receive ::
  "('r \<Rightarrow> error + 'e) \<Rightarrow> 'r net_env \<Rightarrow> Context option \<Rightarrow> TCPTransport
    \<Rightarrow> (error + 'e) outcome \<times> TCPTransport \<times> net_call list" where
  "Receive ToEnvelope env ctx t =
     (if ctx = None then (Panics ''nil context'', t, [])
      else
        (case ensureOpen t of
           Some e0 \<Rightarrow> (Returns (Inl e0), t, [])
         | None \<Rightarrow>
            (case SetReadDeadline_result env of
               Some e1 \<Rightarrow> (Returns (Inl e1), t, [NetSetReadDeadline])
             | None \<Rightarrow>
                (case decoder t of
                   None \<Rightarrow> (Panics nil_dereference, t, [NetSetReadDeadline])
                 | Some d \<Rightarrow>
                    (case Decode (arriving env) d (limitedReader t) of
                       (Inl e2, d', l') \<Rightarrow>
                         (Returns (Inl e2), t\<lparr>decoder := Some d', limitedReader := l'\<rparr>,
                          [NetSetReadDeadline, NetDecode])
                     | (Inr raw, d', l') \<Rightarrow>
                         (Returns (ToEnvelope raw),
                          t\<lparr>decoder := Some d', limitedReader := l'\<lparr>N := ReadLimit t\<rparr>\<rparr>,
                          [NetSetReadDeadline, NetDecode]))))))"

definition Close ::
  "'r net_env \<Rightarrow> TCPTransport \<Rightarrow> error option outcome \<times> TCPTransport \<times> net_call list" where
  "Close env t =
     (case ensureOpen t of
        Some e0 \<Rightarrow> (Returns (Some e0), t, [])
      | None \<Rightarrow> (Returns (Close_result env), t\<lparr>conn := None\<rparr>, [NetClose]))"

text \<open>
  \<^verbatim>\<open>DialTcp\<close> once the dialer has returned the connection \<open>c\<close>, and what
  \<^verbatim>\<open>TCPTransportListener.Accept\<close> builds around an accepted connection.
\<close>

definition zero_TCPTransport :: TCPTransport where
  "zero_TCPTransport =
     \<lparr>ReadLimit = 0, TraceWriter = False, conn = None, encoder = None, decoder = None,
      limitedReader = \<lparr>R = None, N = 0\<rparr>, TLSConfig = None, encryption = [],
      server = False\<rparr>"

definition DialTcp :: "tls_Config option \<Rightarrow> net_Conn \<Rightarrow> TCPTransport" where
  "DialTcp tls c =
     (setConn c (zero_TCPTransport\<lparr>TLSConfig := tls\<rparr>))\<lparr>encryption := SessionEncryptionNone\<rparr>"

definition Accept :: "int \<Rightarrow> tls_Config option \<Rightarrow> net_Conn \<Rightarrow> TCPTransport" where
  "Accept limit tls c =
     setConn c (zero_TCPTransport\<lparr>TLSConfig := tls, encryption := SessionEncryptionNone,
                                  server := True, ReadLimit := limit\<rparr>)"

text \<open>A network on which every operation succeeds, and on which \<open>inb\<close> arrives.\<close>

definition quiet_env :: "'r inbound \<Rightarrow> 'r net_env" where
  "quiet_env inb =
     \<lparr>SetWriteDeadline_result = None, SetReadDeadline_result = None,
      Handshake_result = None, Encode_result = None, Close_result = None,
      arriving = inb\<rparr>"

text \<open>A client transport after its upgrade to TLS.\<close>

definition tls_transport :: TCPTransport where
  "tls_transport =
     (setConn (tls_Client (Socket 0)) (DialTcp (Some (tls_Config ''msging.net'')) (Socket 0)))
       \<lparr>encryption := SessionEncryptionTLS\<rparr>"


section \<open>JSON values\<close>

text \<open>
  The wire form of an envelope is one JSON value. It is modelled as the value itself
  (its syntax tree), which leaves the insignificant whitespace of the text out. An
  object is the list of its members. Numbers are rationals: the rounding of Go's
  \<^verbatim>\<open>float64\<close> is outside the model. A string is the text it holds: its encoding,
  and with it the escapes of JSON and what \<^verbatim>\<open>json.Marshal\<close> makes of bytes that are
  not UTF-8, is outside the model. \<^verbatim>\<open>json.RawMessage\<close> is a JSON value kept as it
  is.
\<close>

datatype json = JNull | JBool bool | JNumber rat | JString string
  | JArray "json list" | JObject "(string \<times> json) list"

text \<open>Sequencing of calls that return a value or an error.\<close>

definition and_then :: "error + 'a \<Rightarrow> ('a \<Rightarrow> error + 'b) \<Rightarrow> error + 'b" where
  "and_then x f = (case x of Inl e \<Rightarrow> Inl e | Inr a \<Rightarrow> f a)"

text \<open>
  A Go map is modelled by the list of its entries, whose keys are distinct. The codec
  takes the entries in the order of the list on both sides: the order of the entries
  of a map, which Go does not define and JSON does not care about, is left out of the
  model. Reading the members of a JSON object into a map assigns them one after the
  other, so of the members that share a name the last one stays.
\<close>

fun last_wins :: "('k \<times> 'v) list \<Rightarrow> ('k \<times> 'v) list" where
  "last_wins [] = []"
| "last_wins ((k, v) # rest) =
     (if k \<in> fst ` set rest then last_wins rest else (k, v) # last_wins rest)"

section \<open>Addresses\<close>

text \<open>
  Modelled from the spec: the declarations of \<^verbatim>\<open>Identity\<close> and \<^verbatim>\<open>Node\<close> are not part
  of the sources at hand. The spec: an identity is a name and a domain, a node is an
  identity plus an instance. The tests build a node as
  \<^verbatim>\<open>Node{Identity{"golang", "limeprotocol.org"}, "default"}\<close>; the node without any
  component is the zero value of the type.
\<close>

datatype Identity = Identity string string

datatype Node = Node Identity string

definition zero_Node :: Node where
  "zero_Node = Node (Identity [] []) []"

text \<open>A string split at the first and at the last occurrence of a separator.\<close>

fun split_first :: "char \<Rightarrow> string \<Rightarrow> (string \<times> string) option" where
  "split_first c [] = None"
| "split_first c (x # xs) =
     (if x = c then Some ([], xs)
      else (case split_first c xs of None \<Rightarrow> None | Some (a, b) \<Rightarrow> Some (x # a, b)))"

definition split_last :: "char \<Rightarrow> string \<Rightarrow> (string \<times> string) option" where
  "split_last c s =
     (case split_first c (rev s) of None \<Rightarrow> None | Some (a, b) \<Rightarrow> Some (rev b, rev a))"

text \<open>
  Modelled from the spec: the textual forms of an identity and of a node, which are not
  part of the sources at hand. The spec: \<^verbatim>\<open>name@domain\<close> and
  \<^verbatim>\<open>name@domain/instance\<close>; any component may be empty, and the separators are
  retained only when needed (\<^verbatim>\<open>postmaster@msging.net\<close> has no instance,
  \<^verbatim>\<open>@msging.net/home\<close> no name).
\<close>

fun Identity_String :: "Identity \<Rightarrow> string" where
  "Identity_String (Identity name domain) =
     (if domain = [] then name else name @ ''@'' @ domain)"

fun Node_String :: "Node \<Rightarrow> string" where
  "Node_String (Node identity instance) =
     (if instance = [] then Identity_String identity
      else Identity_String identity @ ''/'' @ instance)"

text \<open>
  Modelled from the spec: the parsers of an identity and of a node, which are not part
  of the sources at hand. The spec: a node parses by splitting on the last \<^verbatim>\<open>/\<close> then
  on \<^verbatim>\<open>@\<close>; empty components are permitted. The identity is split at its first
  \<^verbatim>\<open>@\<close>.
\<close>

definition ParseIdentity :: "string \<Rightarrow> Identity" where
  "ParseIdentity s =
     (case split_first CHR ''@'' s of
        None \<Rightarrow> Identity s []
      | Some (name, domain) \<Rightarrow> Identity name domain)"

definition ParseNode :: "string \<Rightarrow> Node" where
  "ParseNode s =
     (case split_last CHR ''/'' s of
        None \<Rightarrow> Node (ParseIdentity s) []
      | Some (identity, instance) \<Rightarrow> Node (ParseIdentity identity) instance)"

section \<open>Media types (the media type source file)\<close>

text \<open>
  The media type source file stands in the sources behind the module file
  \<^verbatim>\<open>go.mod\<close>. A media type is a struct of three strings, \<^verbatim>\<open>Type\<close>, \<^verbatim>\<open>Subtype\<close>
  and \<^verbatim>\<open>Suffix\<close>.
\<close>

datatype MediaType = MediaType string string string

definition MediaTypeText :: string where
  "MediaTypeText = ''text''"

definition MediaTypeApplication :: string where
  "MediaTypeApplication = ''application''"

definition zero_MediaType :: MediaType where
  "zero_MediaType = MediaType [] [] []"

fun IsJson :: "MediaType \<Rightarrow> bool" where
  "IsJson (MediaType type subtype suffix) = (suffix = ''json'')"

text \<open>\<^verbatim>\<open>String\<close>: the zero media type has the empty text.\<close>

fun MediaType_String :: "MediaType \<Rightarrow> string" where
  "MediaType_String (MediaType type subtype suffix) =
     (if MediaType type subtype suffix = zero_MediaType then []
      else
        (let v = type @ ''/'' @ subtype in
         if suffix \<noteq> [] then v @ ''+'' @ suffix else v))"

text \<open>
  \<^verbatim>\<open>strings.Split(s, sep)\<close> of the Go library for a separator of one character: the
  pieces of \<open>s\<close> between the separators, one piece more than there are separators.
\<close>

fun strings_Split :: "string \<Rightarrow> char \<Rightarrow> string list" where
  "strings_Split [] sep = [[]]"
| "strings_Split (x # xs) sep =
     (if x = sep then [] # strings_Split xs sep
      else
        (case strings_Split xs sep of
           [] \<Rightarrow> [[x]]
         | v # vs \<Rightarrow> (x # v) # vs))"

text \<open>
  \<^verbatim>\<open>ParseMediaType\<close> splits the text at every \<^verbatim>\<open>+\<close>, takes the second piece, if there
  is one, as the suffix, splits the first piece at every \<^verbatim>\<open>/\<close>, refuses a first piece
  without \<^verbatim>\<open>/\<close>, and takes the first two pieces as the type and the subtype.
  \<^verbatim>\<open>strings.Split\<close> returns at least one piece, so the first case below is never
  taken.
\<close>

definition ParseMediaType :: "string \<Rightarrow> error + MediaType" where
  "ParseMediaType s =
     (case strings_Split s CHR ''+'' of
        [] \<Rightarrow> Inl (errors_New ''invalid media type'')
      | v0 # others \<Rightarrow>
         (let suffix = (case others of [] \<Rightarrow> [] | v1 # _ \<Rightarrow> v1) in
          case strings_Split v0 CHR ''/'' of
            type # subtype # _ \<Rightarrow> Inr (MediaType type subtype suffix)
          | _ \<Rightarrow> Inl (errors_New ''invalid media type'')))"

definition MediaType_MarshalText :: "MediaType \<Rightarrow> string \<times> error option" where
  "MediaType_MarshalText m = (MediaType_String m, None)"

text \<open>\<^verbatim>\<open>UnmarshalText\<close> returns its error and the receiver as it leaves it.\<close>

definition MediaType_UnmarshalText :: "string \<Rightarrow> MediaType \<Rightarrow> error option \<times> MediaType" where
  "MediaType_UnmarshalText text m =
     (case ParseMediaType text of
        Inl err \<Rightarrow> (Some err, m)
      | Inr mediaType \<Rightarrow> (None, mediaType))"

definition mediaTypeApplicationJson :: MediaType where
  "mediaTypeApplicationJson = MediaType MediaTypeApplication ''json'' []"

definition mediaTypeTextPlain :: MediaType where
  "mediaTypeTextPlain = MediaType MediaTypeText ''plain'' []"

section \<open>Documents\<close>

text \<open>
  Modelled from the spec: the interface \<^verbatim>\<open>Document\<close> and the document types are not
  part of the sources at hand. The spec: a document is a value with a media type; the
  raw string and the generic JSON object are the two kinds that have a default
  factory. The tests name them \<^verbatim>\<open>PlainDocument\<close>, built from a string, and
  \<^verbatim>\<open>JsonDocument\<close>, built as a map from strings to Go values of any type
  (\<^verbatim>\<open>JsonDocument{"property1": "value1", "property2": 2, ...}\<close>). The Go values modelled
  are \<^verbatim>\<open>nil\<close>, a \<^verbatim>\<open>bool\<close>, an \<^verbatim>\<open>int\<close>, a \<^verbatim>\<open>float64\<close> (a rational), a
  \<^verbatim>\<open>string\<close>, a slice of values and a map from strings to values. A document and a
  pointer to a document are not told apart. The payload types that an application
  registers are outside the spec and outside the model.
\<close>

datatype go_value = GoNil | GoBool bool | GoInt int | GoFloat64 rat | GoString string
  | GoSlice "go_value list" | GoMap "(string \<times> go_value) list"

datatype Document = PlainDocument string | JsonDocument "(string \<times> go_value) list"

text \<open>
  Modelled from the spec: the method of a document that gives its media type, which
  \<^verbatim>\<open>Message.SetContent\<close> calls as \<^verbatim>\<open>GetMediaType\<close> and \<^verbatim>\<open>RegisterDocumentFactory\<close>
  as \<^verbatim>\<open>MediaType\<close>, is not part of the sources at hand; the media types are those the
  tests expect after \<^verbatim>\<open>SetContent\<close>.
\<close>

fun GetMediaType :: "Document \<Rightarrow> MediaType" where
  "GetMediaType (PlainDocument s) = mediaTypeTextPlain"
| "GetMediaType (JsonDocument entries) = mediaTypeApplicationJson"

text \<open>
  The media type source file: \<^verbatim>\<open>documentFactories\<close> is a map from media types to
  factories, empty at first. A factory is a function without arguments that returns a
  document; it is modelled by the document it returns. A registry is the value of
  \<^verbatim>\<open>documentFactories\<close> at some moment; a media type without an entry is mapped
  to \<open>None\<close>. \<^verbatim>\<open>RegisterDocumentFactory\<close> calls the factory before it stores it,
  so no entry holds the nil factory.
\<close>

type_synonym registry = "MediaType \<Rightarrow> Document option"

definition documentFactories :: registry where
  "documentFactories = Map.empty"

definition RegisterDocumentFactory :: "Document \<Rightarrow> registry \<Rightarrow> registry" where
  "RegisterDocumentFactory f reg = (let d = f in reg(GetMediaType d \<mapsto> f))"

text \<open>
  Modelled from the spec: the calls that register the default factories are not part of
  the sources at hand. The spec: the default factories give a raw string for
  \<^verbatim>\<open>text/plain\<close> and a generic JSON object for \<^verbatim>\<open>application/json\<close>. The
  tests rely on both: they parse into a \<^verbatim>\<open>*PlainDocument\<close> for \<^verbatim>\<open>text/unknown\<close>
  and into a \<^verbatim>\<open>*JsonDocument\<close> for \<^verbatim>\<open>application/x-unknown+json\<close>.
\<close>

definition default_registry :: registry where
  "default_registry =
     RegisterDocumentFactory (JsonDocument [])
       (RegisterDocumentFactory (PlainDocument []) documentFactories)"

text \<open>
  \<^verbatim>\<open>GetDocumentFactory\<close>: the factory registered for the media type; without one, the
  factory registered for \<^verbatim>\<open>application/json\<close> when the suffix is \<^verbatim>\<open>json\<close>, the
  factory registered for \<^verbatim>\<open>text/plain\<close> otherwise; an error when that gives no
  factory. The media type is formatted with \<^verbatim>\<open>%v\<close>, which prints its \<^verbatim>\<open>String\<close>.
\<close>

definition GetDocumentFactory :: "registry \<Rightarrow> MediaType \<Rightarrow> error + Document" where
  "GetDocumentFactory reg t =
     (let factory =
        (case reg t of
           Some f \<Rightarrow> Some f
         | None \<Rightarrow> if IsJson t then reg mediaTypeApplicationJson else reg mediaTypeTextPlain)
      in case factory of
           None \<Rightarrow>
             Inl (fmt_Errorf ''no document factory found for media type %v''
                    (ArgString (MediaType_String t)))
         | Some f \<Rightarrow> Inr f)"

text \<open>
  What \<^verbatim>\<open>json.Marshal\<close> writes for a Go value, and what \<^verbatim>\<open>json.Unmarshal\<close> reads
  into a value of type \<^verbatim>\<open>interface{}\<close>: every number becomes a \<^verbatim>\<open>float64\<close>, an
  array a slice, an object a map.
\<close>

fun json_of_go :: "go_value \<Rightarrow> json"
  and json_of_gos :: "go_value list \<Rightarrow> json list"
  and json_of_entries :: "(string \<times> go_value) list \<Rightarrow> (string \<times> json) list" where
  "json_of_go GoNil = JNull"
| "json_of_go (GoBool b) = JBool b"
| "json_of_go (GoInt i) = JNumber (of_int i)"
| "json_of_go (GoFloat64 q) = JNumber q"
| "json_of_go (GoString s) = JString s"
| "json_of_go (GoSlice vs) = JArray (json_of_gos vs)"
| "json_of_go (GoMap entries) = JObject (json_of_entries entries)"
| "json_of_gos [] = []"
| "json_of_gos (v # vs) = json_of_go v # json_of_gos vs"
| "json_of_entries [] = []"
| "json_of_entries ((k, v) # entries) = (k, json_of_go v) # json_of_entries entries"

fun go_of_json :: "json \<Rightarrow> go_value"
  and gos_of_jsons :: "json list \<Rightarrow> go_value list"
  and entries_of_members :: "(string \<times> json) list \<Rightarrow> (string \<times> go_value) list" where
  "go_of_json JNull = GoNil"
| "go_of_json (JBool b) = GoBool b"
| "go_of_json (JNumber q) = GoFloat64 q"
| "go_of_json (JString s) = GoString s"
| "go_of_json (JArray js) = GoSlice (gos_of_jsons js)"
| "go_of_json (JObject members) = GoMap (last_wins (entries_of_members members))"
| "gos_of_jsons [] = []"
| "gos_of_jsons (j # js) = go_of_json j # gos_of_jsons js"
| "entries_of_members [] = []"
| "entries_of_members ((k, j) # members) = (k, go_of_json j) # entries_of_members members"

text \<open>
  Modelled from the spec: the document types are not part of the sources at hand, and
  so neither are their JSON forms; they are a JSON string and a JSON object, as in the
  texts of the tests. \<^verbatim>\<open>json.Unmarshal\<close> is handed the
  address of the variable that holds the factory's document. A JSON \<^verbatim>\<open>null\<close> sets
  that variable to nil and is no error. A JSON string is stored in a raw string, the
  members of a JSON object are assigned to the entries of a generic JSON object, which
  keeps the entries it has. A JSON value of another shape is the spec's type/content
  mismatch, an error that names the shape.
\<close>

fun json_Marshal_Document :: "Document \<Rightarrow> error + json" where
  "json_Marshal_Document (PlainDocument s) = Inr (JString s)"
| "json_Marshal_Document (JsonDocument entries) = Inr (JObject (json_of_entries entries))"

fun json_shape :: "json \<Rightarrow> string" where
  "json_shape JNull = ''null''"
| "json_shape (JBool b) = ''bool''"
| "json_shape (JNumber q) = ''number''"
| "json_shape (JString s) = ''string''"
| "json_shape (JArray js) = ''array''"
| "json_shape (JObject members) = ''object''"

fun json_Unmarshal_Document :: "json \<Rightarrow> Document \<Rightarrow> error + Document option" where
  "json_Unmarshal_Document JNull document = Inr None"
| "json_Unmarshal_Document (JString s) (PlainDocument fresh) = Inr (Some (PlainDocument s))"
| "json_Unmarshal_Document (JObject members) (JsonDocument fresh) =
     Inr (Some (JsonDocument (last_wins (fresh @ entries_of_members members))))"
| "json_Unmarshal_Document j (PlainDocument fresh) =
     Inl (errors_New (''json: cannot unmarshal '' @ json_shape j
                       @ '' into Go value of type lime.PlainDocument''))"
| "json_Unmarshal_Document j (JsonDocument fresh) =
     Inl (errors_New (''json: cannot unmarshal '' @ json_shape j
                       @ '' into Go value of type lime.JsonDocument''))"

text \<open>
  \<^verbatim>\<open>UnmarshalDocument\<close>: the error of \<^verbatim>\<open>GetDocumentFactory\<close>, or what
  \<^verbatim>\<open>json.Unmarshal\<close> makes of the payload and the document of the factory. The
  document it returns may be nil.
\<close>

definition UnmarshalDocument ::
  "registry \<Rightarrow> json \<Rightarrow> MediaType \<Rightarrow> error + Document option" where
  "UnmarshalDocument reg d t =
     (case GetDocumentFactory reg t of
        Inl err \<Rightarrow> Inl err
      | Inr factory \<Rightarrow> (let document = factory in json_Unmarshal_Document d document))"

section \<open>Envelopes\<close>

text \<open>
  Modelled from the spec: the declaration of \<^verbatim>\<open>Reason\<close> is not part of the sources at
  hand. The spec: a code and a description.
\<close>

record Reason =
  Code :: int
  Description :: string

text \<open>notification.go: \<^verbatim>\<open>type NotificationEvent string\<close>.\<close>

type_synonym NotificationEvent = string

text \<open>
  Modelled from the spec: the declaration of the raw envelope is not part of the sources
  at hand. The spec: the permissive first phase of decoding, with the payload kept as
  opaque JSON. The sources at hand read and write its fields \<^verbatim>\<open>Type\<close>, \<^verbatim>\<open>Content\<close>,
  \<^verbatim>\<open>Event\<close> and \<^verbatim>\<open>Reason\<close>, all pointers; the fields of the base are those of the
  spec, the nodes pointers too; the fields of commands and sessions are left out, no
  function modelled here touches them.
\<close>

record RawEnvelope =
  rawID :: string
  rawFrom :: "Node option"
  rawPP :: "Node option"
  rawTo :: "Node option"
  rawMetadata :: "(string \<times> string) list"
  rawType :: "MediaType option"
  rawContent :: "json option"
  rawEvent :: "NotificationEvent option"
  rawReason :: "Reason option"

text \<open>
  Modelled from the spec: the declaration of the envelope base is not part of the
  sources at hand. The spec: every envelope carries \<^verbatim>\<open>id\<close>, optional \<^verbatim>\<open>from\<close>,
  \<^verbatim>\<open>to\<close> and \<^verbatim>\<open>pp\<close> nodes and an optional \<^verbatim>\<open>metadata\<close> mapping of strings to
  strings. An absent node is the zero node (the tests assert
  \<^verbatim>\<open>assert.Zero(t, m.From)\<close>), absent metadata the empty mapping.
\<close>

record EnvelopeBase =
  ID :: string
  From :: Node
  PP :: Node
  To :: Node
  Metadata :: "(string \<times> string) list"

text \<open>
  Modelled from the spec: the methods of the envelope base that \<^verbatim>\<open>Message\<close> and
  \<^verbatim>\<open>Notification\<close> call first are not part of the sources at hand (notification.go
  names the embedded base \<^verbatim>\<open>Envelope\<close> and the methods \<^verbatim>\<open>toRawEnvelope\<close> and
  \<^verbatim>\<open>populate\<close>). They copy the fields of the base; a node that is omitted is the
  zero node on one side and a nil pointer on the other. Neither fails.
\<close>

definition node_pointer :: "Node \<Rightarrow> Node option" where
  "node_pointer n = (if n = zero_Node then None else Some n)"

definition EnvelopeBase_ToRawEnvelope :: "'a EnvelopeBase_scheme \<Rightarrow> error + RawEnvelope" where
  "EnvelopeBase_ToRawEnvelope env =
     Inr \<lparr>rawID = ID env,
          rawFrom = node_pointer (From env),
          rawPP = node_pointer (PP env),
          rawTo = node_pointer (To env),
          rawMetadata = Metadata env,
          rawType = None, rawContent = None, rawEvent = None, rawReason = None\<rparr>"

definition EnvelopeBase_Populate ::
  "RawEnvelope \<Rightarrow> 'a EnvelopeBase_scheme \<Rightarrow> error option \<times> 'a EnvelopeBase_scheme" where
  "EnvelopeBase_Populate raw env =
     (None,
      env\<lparr>ID := rawID raw,
          From := (case rawFrom raw of None \<Rightarrow> From env | Some n \<Rightarrow> n),
          PP := (case rawPP raw of None \<Rightarrow> PP env | Some n \<Rightarrow> n),
          To := (case rawTo raw of None \<Rightarrow> To env | Some n \<Rightarrow> n),
          Metadata := rawMetadata raw\<rparr>)"

section \<open>Notification events (notification.go)\<close>

definition NotificationEventAccepted :: NotificationEvent where
  "NotificationEventAccepted = ''accepted''"

definition NotificationEventDispatched :: NotificationEvent where
  "NotificationEventDispatched = ''dispatched''"

definition NotificationEventReceived :: NotificationEvent where
  "NotificationEventReceived = ''received''"

definition NotificationEventConsumed :: NotificationEvent where
  "NotificationEventConsumed = ''consumed''"

definition NotificationEventFailed :: NotificationEvent where
  "NotificationEventFailed = ''failed''"

text \<open>
  \<^verbatim>\<open>Validate\<close> hands the receiver, a pointer, to \<^verbatim>\<open>fmt.Errorf\<close>: the message ends in
  an address between quotes.
\<close>

definition NotificationEvent_Validate :: "NotificationEvent \<Rightarrow> error option" where
  "NotificationEvent_Validate e =
     (if e = NotificationEventAccepted \<or> e = NotificationEventDispatched
         \<or> e = NotificationEventReceived \<or> e = NotificationEventConsumed
         \<or> e = NotificationEventFailed
      then None
      else Some (fmt_Errorf (''invalid notification event '%v'' @ [CHR 0x27]) ArgPointer))"

definition NotificationEvent_MarshalText :: "NotificationEvent \<Rightarrow> string \<times> error option" where
  "NotificationEvent_MarshalText e =
     (case NotificationEvent_Validate e of
        Some err \<Rightarrow> ([], Some err)
      | None \<Rightarrow> (e, None))"

text \<open>\<^verbatim>\<open>UnmarshalText\<close> returns its error and the receiver as it leaves it.\<close>

definition NotificationEvent_UnmarshalText ::
  "string \<Rightarrow> NotificationEvent \<Rightarrow> error option \<times> NotificationEvent" where
  "NotificationEvent_UnmarshalText text e =
     (let event = text in
      case NotificationEvent_Validate event of
        Some err \<Rightarrow> (Some err, e)
      | None \<Rightarrow> (None, event))"

section \<open>The raw envelope as JSON\<close>

text \<open>
  What \<^verbatim>\<open>json.Marshal\<close> and \<^verbatim>\<open>json.Unmarshal\<close> make of a raw envelope follows from
  the declaration of the raw envelope, which is not part of the sources at hand. The
  member names are those of the spec and of the expected texts in message\_test.go,
  which list \<^verbatim>\<open>id\<close>, \<^verbatim>\<open>to\<close>, \<^verbatim>\<open>type\<close>, \<^verbatim>\<open>content\<close> and \<^verbatim>\<open>metadata\<close> in this
  order.
\<close>

text \<open>A member is written when its value is there.\<close>

fun put :: "string \<Rightarrow> json option \<Rightarrow> (string \<times> json) list \<Rightarrow> (string \<times> json) list" where
  "put k None members = members"
| "put k (Some v) members = (k, v) # members"

text \<open>
  Modelled from the spec: the JSON forms of a reason (its code and its description), of
  the metadata (an object of strings), and of a media type and an event (a string,
  through their \<^verbatim>\<open>MarshalText\<close>, whose error fails the serialization).
\<close>

definition json_of_Reason :: "Reason \<Rightarrow> json" where
  "json_of_Reason r =
     JObject [(''code'', JNumber (of_int (Code r))), (''description'', JString (Description r))]"

definition json_of_metadata :: "(string \<times> string) list \<Rightarrow> json" where
  "json_of_metadata md = JObject (map (\<lambda>(k, v). (k, JString v)) md)"

definition json_of_type :: "MediaType option \<Rightarrow> error + json option" where
  "json_of_type ty =
     (case ty of
        None \<Rightarrow> Inr None
      | Some t \<Rightarrow>
         (case MediaType_MarshalText t of
            (text, None) \<Rightarrow> Inr (Some (JString text))
          | (text, Some err) \<Rightarrow> Inl err))"

definition json_of_event :: "NotificationEvent option \<Rightarrow> error + json option" where
  "json_of_event ev =
     (case ev of
        None \<Rightarrow> Inr None
      | Some e \<Rightarrow>
         (case NotificationEvent_MarshalText e of
            (text, None) \<Rightarrow> Inr (Some (JString text))
          | (text, Some err) \<Rightarrow> Inl err))"

text \<open>
  Modelled from the spec: \<^verbatim>\<open>json.Marshal\<close> of a raw envelope. The spec: serialization
  is the symmetric operation of decoding; \<^verbatim>\<open>metadata\<close> is omitted if empty; a node
  and a media type encode as their textual form. An empty \<^verbatim>\<open>id\<close> and a nil pointer
  leave no member (the spec's session scenario has envelopes without \<^verbatim>\<open>id\<close>, the
  tests' texts have no \<^verbatim>\<open>from\<close>).
\<close>

definition json_Marshal_RawEnvelope :: "RawEnvelope \<Rightarrow> error + json" where
  "json_Marshal_RawEnvelope raw =
     and_then (json_of_type (rawType raw)) (\<lambda>type.
     and_then (json_of_event (rawEvent raw)) (\<lambda>event.
       Inr (JObject
         (put ''id'' (if rawID raw = [] then None else Some (JString (rawID raw)))
         (put ''from'' (map_option (\<lambda>n. JString (Node_String n)) (rawFrom raw))
         (put ''pp'' (map_option (\<lambda>n. JString (Node_String n)) (rawPP raw))
         (put ''to'' (map_option (\<lambda>n. JString (Node_String n)) (rawTo raw))
         (put ''type'' type
         (put ''content'' (rawContent raw)
         (put ''event'' event
         (put ''reason'' (map_option json_of_Reason (rawReason raw))
         (put ''metadata''
            (if rawMetadata raw = [] then None else Some (json_of_metadata (rawMetadata raw)))
            []))))))))))))"

text \<open>
  Modelled from the spec: reading the members of a JSON object into the fields of the
  raw envelope. A member that is absent or \<^verbatim>\<open>null\<close> leaves its field nil; a member
  of the wrong JSON type is an error; a node is parsed from its text; a media type and
  an event go through their \<^verbatim>\<open>UnmarshalText\<close>, whose error fails the decoding (the
  spec's invalid enum string); the metadata are read into a map.
\<close>

definition type_error :: "string \<Rightarrow> error" where
  "type_error field = errors_New (''json: cannot unmarshal into Go struct field '' @ field)"

definition field :: "(string \<times> json) list \<Rightarrow> string \<Rightarrow> json option" where
  "field members k =
     (case map_of members k of
        None \<Rightarrow> None
      | Some JNull \<Rightarrow> None
      | Some v \<Rightarrow> Some v)"

definition string_field :: "(string \<times> json) list \<Rightarrow> string \<Rightarrow> error + string option" where
  "string_field members k =
     (case field members k of
        None \<Rightarrow> Inr None
      | Some (JString s) \<Rightarrow> Inr (Some s)
      | Some v \<Rightarrow> Inl (type_error k))"

definition node_field :: "(string \<times> json) list \<Rightarrow> string \<Rightarrow> error + Node option" where
  "node_field members k =
     and_then (string_field members k) (\<lambda>s. Inr (map_option ParseNode s))"

definition type_field :: "(string \<times> json) list \<Rightarrow> error + MediaType option" where
  "type_field members =
     and_then (string_field members ''type'') (\<lambda>s.
       case s of
         None \<Rightarrow> Inr None
       | Some text \<Rightarrow>
          (case MediaType_UnmarshalText text zero_MediaType of
             (Some err, t) \<Rightarrow> Inl err
           | (None, t) \<Rightarrow> Inr (Some t)))"

definition event_field :: "(string \<times> json) list \<Rightarrow> error + NotificationEvent option" where
  "event_field members =
     and_then (string_field members ''event'') (\<lambda>s.
       case s of
         None \<Rightarrow> Inr None
       | Some text \<Rightarrow>
          (case NotificationEvent_UnmarshalText text [] of
             (Some err, e) \<Rightarrow> Inl err
           | (None, e) \<Rightarrow> Inr (Some e)))"

fun metadata_of_members :: "(string \<times> json) list \<Rightarrow> error + (string \<times> string) list" where
  "metadata_of_members [] = Inr []"
| "metadata_of_members ((k, JString v) # rest) =
     and_then (metadata_of_members rest) (\<lambda>md. Inr ((k, v) # md))"
| "metadata_of_members ((k, j) # rest) = Inl (type_error ''metadata'')"

definition metadata_field :: "(string \<times> json) list \<Rightarrow> error + (string \<times> string) list" where
  "metadata_field members =
     (case field members ''metadata'' of
        None \<Rightarrow> Inr []
      | Some (JObject entries) \<Rightarrow>
          and_then (metadata_of_members entries) (\<lambda>md. Inr (last_wins md))
      | Some v \<Rightarrow> Inl (type_error ''metadata''))"

definition Reason_of_json :: "json \<Rightarrow> error + Reason" where
  "Reason_of_json j =
     (case j of
        JObject entries \<Rightarrow>
          and_then
            (case field entries ''code'' of
               None \<Rightarrow> Inr 0
             | Some (JNumber q) \<Rightarrow>
                 if of_int \<lfloor>q\<rfloor> = q then Inr \<lfloor>q\<rfloor> else Inl (type_error ''reason.code'')
             | Some v \<Rightarrow> Inl (type_error ''reason.code''))
            (\<lambda>code.
              and_then (string_field entries ''description'') (\<lambda>d.
                Inr \<lparr>Code = code, Description = (case d of None \<Rightarrow> [] | Some s \<Rightarrow> s)\<rparr>))
      | v \<Rightarrow> Inl (type_error ''reason''))"

definition reason_field :: "(string \<times> json) list \<Rightarrow> error + Reason option" where
  "reason_field members =
     (case field members ''reason'' of
        None \<Rightarrow> Inr None
      | Some j \<Rightarrow> and_then (Reason_of_json j) (\<lambda>r. Inr (Some r)))"

text \<open>
  Modelled from the spec: \<^verbatim>\<open>json.Unmarshal\<close> into a raw envelope, the first phase of
  the spec's two-phase decode. Members that the raw envelope does not know are skipped;
  a JSON value that is not an object is an error (the spec's malformed JSON).
\<close>

definition json_Unmarshal_RawEnvelope :: "json \<Rightarrow> error + RawEnvelope" where
  "json_Unmarshal_RawEnvelope b =
     (case b of
        JObject members \<Rightarrow>
          and_then (string_field members ''id'') (\<lambda>i.
          and_then (node_field members ''from'') (\<lambda>f.
          and_then (node_field members ''pp'') (\<lambda>p.
          and_then (node_field members ''to'') (\<lambda>t.
          and_then (type_field members) (\<lambda>ty.
          and_then (event_field members) (\<lambda>ev.
          and_then (reason_field members) (\<lambda>rs.
          and_then (metadata_field members) (\<lambda>md.
            Inr \<lparr>rawID = (case i of None \<Rightarrow> [] | Some s \<Rightarrow> s),
                 rawFrom = f, rawPP = p, rawTo = t,
                 rawMetadata = md,
                 rawType = ty,
                 rawContent = field members ''content'',
                 rawEvent = ev,
                 rawReason = rs\<rparr>))))))))
      | v \<Rightarrow> Inl (errors_New ''json: cannot unmarshal into Go value of type lime.RawEnvelope''))"

section \<open>Messages (the message source file)\<close>

record Message = EnvelopeBase +
  Type :: MediaType
  Content :: "Document option"

definition zero_Message :: Message where
  "zero_Message =
     \<lparr>ID = [], From = zero_Node, PP = zero_Node, To = zero_Node, Metadata = [],
      Type = zero_MediaType, Content = None\<rparr>"

definition SetContent :: "Document \<Rightarrow> Message \<Rightarrow> Message" where
  "SetContent d m = m\<lparr>Content := Some d, Type := GetMediaType d\<rparr>"

definition Message_ToRawEnvelope :: "Message \<Rightarrow> error + RawEnvelope" where
  "Message_ToRawEnvelope m =
     (case EnvelopeBase_ToRawEnvelope m of
        Inl e \<Rightarrow> Inl e
      | Inr raw \<Rightarrow>
         (case Content m of
            None \<Rightarrow> Inl (errors_New ''message content is required'')
          | Some d \<Rightarrow>
             (case json_Marshal_Document d of
                Inl e \<Rightarrow> Inl e
              | Inr b \<Rightarrow> Inr (raw\<lparr>rawType := Some (Type m), rawContent := Some b\<rparr>))))"

definition Message_MarshalJSON :: "Message \<Rightarrow> error + json" where
  "Message_MarshalJSON m =
     (case Message_ToRawEnvelope m of
        Inl e \<Rightarrow> Inl e
      | Inr raw \<Rightarrow> json_Marshal_RawEnvelope raw)"

text \<open>
  \<^verbatim>\<open>Populate\<close> and \<^verbatim>\<open>UnmarshalJSON\<close> write to their receiver: they return their error
  and the receiver as they leave it.
\<close>

definition Message_Populate ::
  "registry \<Rightarrow> RawEnvelope \<Rightarrow> Message \<Rightarrow> error option \<times> Message" where
  "Message_Populate reg raw m =
     (case EnvelopeBase_Populate raw m of
        (Some e, m1) \<Rightarrow> (Some e, m1)
      | (None, m1) \<Rightarrow>
         (case rawType raw of
            None \<Rightarrow> (Some (errors_New ''message type is required''), m1)
          | Some t \<Rightarrow>
             (case rawContent raw of
                None \<Rightarrow> (Some (errors_New ''message content is required''), m1)
              | Some c \<Rightarrow>
                 (case UnmarshalDocument reg c t of
                    Inl e \<Rightarrow> (Some e, m1)
                  | Inr document \<Rightarrow> (None, m1\<lparr>Type := t, Content := document\<rparr>)))))"

definition Message_UnmarshalJSON ::
  "registry \<Rightarrow> json \<Rightarrow> Message \<Rightarrow> error option \<times> Message" where
  "Message_UnmarshalJSON reg b m =
     (case json_Unmarshal_RawEnvelope b of
        Inl e \<Rightarrow> (Some e, m)
      | Inr raw \<Rightarrow>
         (case Message_Populate reg raw zero_Message of
            (Some e, message) \<Rightarrow> (Some e, m)
          | (None, message) \<Rightarrow> (None, message)))"

section \<open>Notifications (notification.go)\<close>

record Notification = EnvelopeBase +
  Event :: NotificationEvent
  Reason :: "Reason option"

definition zero_Notification :: Notification where
  "zero_Notification =
     \<lparr>ID = [], From = zero_Node, PP = zero_Node, To = zero_Node, Metadata = [],
      Event = [], Reason = None\<rparr>"

definition Notification_toRawEnvelope :: "Notification \<Rightarrow> error + RawEnvelope" where
  "Notification_toRawEnvelope n =
     (case EnvelopeBase_ToRawEnvelope n of
        Inl e \<Rightarrow> Inl e
      | Inr raw \<Rightarrow>
          Inr (raw\<lparr>rawEvent := (if Event n \<noteq> [] then Some (Event n) else rawEvent raw),
                   rawReason := Reason n\<rparr>))"

definition Notification_MarshalJSON :: "Notification \<Rightarrow> error + json" where
  "Notification_MarshalJSON n =
     (case Notification_toRawEnvelope n of
        Inl e \<Rightarrow> Inl e
      | Inr raw \<Rightarrow> json_Marshal_RawEnvelope raw)"

definition Notification_populate ::
  "RawEnvelope \<Rightarrow> Notification \<Rightarrow> error option \<times> Notification" where
  "Notification_populate raw n =
     (case EnvelopeBase_Populate raw n of
        (Some e, n1) \<Rightarrow> (Some e, n1)
      | (None, n1) \<Rightarrow>
         (case rawEvent raw of
            None \<Rightarrow> (Some (errors_New ''notification event is required''), n1)
          | Some ev \<Rightarrow> (None, n1\<lparr>Event := ev, Reason := rawReason raw\<rparr>)))"

definition Notification_UnmarshalJSON :: "json \<Rightarrow> Notification \<Rightarrow> error option \<times> Notification" where
  "Notification_UnmarshalJSON b n =
     (case json_Unmarshal_RawEnvelope b of
        Inl e \<Rightarrow> (Some e, n)
      | Inr raw \<Rightarrow>
         (case Notification_populate raw zero_Notification of
            (Some e, notification) \<Rightarrow> (Some e, n)
          | (None, notification) \<Rightarrow> (None, notification)))"

section \<open>Well-formed addresses, media types and contents\<close>








text \<open>The messages that message\_test.go builds, and the texts it expects and parses.\<close>

definition createMessage :: Message where
  "createMessage =
     SetContent (PlainDocument ''Hello world'')
       (zero_Message\<lparr>ID := ''4609d0a3-00eb-4e16-9d44-27d115c6eb31'',
                      To := Node (Identity ''golang'' ''limeprotocol.org'') ''default''\<rparr>)"

text \<open>
  The JSON document of the tests: as the tests that serialize build it, with the
  \<^verbatim>\<open>int\<close> 2; as the tests that parse expect it, with the \<^verbatim>\<open>float64\<close> 2.0; and as
  the JSON object of the texts.
\<close>

definition marshal_test_document :: "(string \<times> go_value) list" where
  "marshal_test_document =
     [(''property1'', GoString ''value1''), (''property2'', GoInt 2),
      (''property3'', GoMap [(''subproperty1'', GoString ''subvalue1'')]),
      (''property4'', GoBool False), (''property5'', GoFloat64 (123 / 10))]"


definition test_document :: "(string \<times> json) list" where
  "test_document =
     [(''property1'', JString ''value1''), (''property2'', JNumber 2),
      (''property3'', JObject [(''subproperty1'', JString ''subvalue1'')]),
      (''property4'', JBool False), (''property5'', JNumber (123 / 10))]"

definition test_envelope :: "string \<Rightarrow> json \<Rightarrow> (string \<times> json) list \<Rightarrow> json" where
  "test_envelope type content rest =
     JObject ([(''id'', JString ''4609d0a3-00eb-4e16-9d44-27d115c6eb31''),
               (''to'', JString ''golang@limeprotocol.org/default''),
               (''type'', JString type),
               (''content'', content)] @ rest)"

text \<open>
  The messages of TestMessage\_MarshalJSON\_Metadata, \_ApplicationJson,
  \_TextUnknownPlain and \_ApplicationUnknownJson.
\<close>

definition metadata_message :: Message where
  "metadata_message =
     createMessage\<lparr>Metadata := [(''property1'', ''value1''), (''property2'', ''value2'')]\<rparr>"

definition json_message :: Message where
  "json_message = SetContent (JsonDocument marshal_test_document) createMessage"

definition unknown_plain_message :: Message where
  "unknown_plain_message = createMessage\<lparr>Type := MediaType ''text'' ''unknown'' []\<rparr>"







text \<open>A notification of event \<^verbatim>\<open>received\<close>.\<close>

definition received_notification :: Notification where
  "received_notification =
     zero_Notification\<lparr>ID := ''4609d0a3-00eb-4e16-9d44-27d115c6eb31'',
                         From := Node (Identity ''golang'' ''limeprotocol.org'') ''default'',
                         Event := NotificationEventReceived\<rparr>"




section \<open>Properties of the TCP transport\<close>

subsection \<open>Helper facts\<close>

lemma ensureOpen_closed: "conn t = None \<Longrightarrow> ensureOpen t = Some (errors_New ''transport is not open'')"
  by (simp add: ensureOpen_def)

lemma Close_closes: "IsConnected t \<Longrightarrow> Close env t = (Returns (Close_result env), t\<lparr>conn := None\<rparr>, [NetClose])"
  by (auto simp: Close_def IsConnected_def ensureOpen_def)

lemma setConn_conn: "conn (setConn c t) = Some c"
  by (simp add: setConn_def Let_def)


lemma SetEncryption_success:
  assumes "SetEncryption env ctx e t = (Returns None, t', calls)" and "e \<noteq> encryption t"
  shows "\<exists>c. conn t = Some c
           \<and> t' = (setConn (if server t then tls_Server c else tls_Client c) t)
                    \<lparr>encryption := SessionEncryptionTLS\<rparr>
           \<and> calls = [NetSetWriteDeadline, NetSetReadDeadline, NetHandshake]
           \<and> Handshake_result env = None"
  using assms
  by (auto simp: SetEncryption_def Let_def split: if_splits option.splits)







subsection \<open>Compression\<close>

text \<open>
  C9. \<^verbatim>\<open>SetCompression\<close> returns the error
  \<^verbatim>\<open>compression '<c>' is not supported\<close> for every compression \<open>c\<close>, whatever the
  context and the transport, and leaves the transport and the connection alone. It does
  so for \<^verbatim>\<open>SessionCompressionNone\<close> too, the one value that
  \<^verbatim>\<open>GetSupportedCompression\<close> lists and that \<^verbatim>\<open>GetCompression\<close> always returns.
\<close>

theorem SetCompression_always_fails:
  "fst (SetCompression ctx c t)
     = Returns (Some (fmt_Errorf ''compression '%v' is not supported'' (ArgString c)))
   \<and> fst (SetCompression ctx SessionCompressionNone t) \<noteq> Returns None
   \<and> fst (SetCompression ctx (GetCompression t) t) \<noteq> Returns None
   \<and> GetSupportedCompression t = [SessionCompressionNone]
   \<and> GetCompression t = SessionCompressionNone
   \<and> snd (SetCompression ctx c t) = (t, [])"
  by (simp add: SetCompression_def GetSupportedCompression_def GetCompression_def)

theorem SetCompression_always_fails_witness:
  "fst (SetCompression (Some None) ''none'' tls_transport)
     = Returns (Some (fmt_Errorf ''compression '%v' is not supported'' (ArgString ''none'')))
   \<and> GetSupportedCompression tls_transport = [''none'']
   \<and> GetCompression tls_transport = ''none''"
  using SetCompression_always_fails [of "Some None" "''none''" tls_transport]
  by (simp add: SessionCompressionNone_def)

subsection \<open>Encryption\<close>

text \<open>
  Once the guards of \<^verbatim>\<open>SetEncryption\<close> are passed and both deadlines are set, the
  handshake runs over the connection the transport holds, and its result is the result
  of the call; the transport changes only when the handshake succeeds.
\<close>

lemma SetEncryption_handshake_runs:
  "e \<noteq> encryption t \<Longrightarrow> e \<noteq> SessionEncryptionNone \<Longrightarrow> TLSConfig t \<noteq> None \<Longrightarrow>
   ctx \<noteq> None \<Longrightarrow> conn t = Some c \<Longrightarrow>
   SetWriteDeadline_result env = None \<Longrightarrow> SetReadDeadline_result env = None \<Longrightarrow>
   SetEncryption env ctx e t =
     (Returns (Handshake_result env),
      (if Handshake_result env = None
       then (setConn (if server t then tls_Server c else tls_Client c) t)
              \<lparr>encryption := SessionEncryptionTLS\<rparr>
       else t),
      [NetSetWriteDeadline, NetSetReadDeadline, NetHandshake])"
  by (auto simp: SetEncryption_def Let_def split: option.splits)

text \<open>
  C3, as the code has it. On a transport whose current encryption is not TLS, a
  \<^verbatim>\<open>SetEncryption\<close> with the TLS option that returns no error has run the handshake
  (and it succeeded), has replaced the connection by the TLS connection laid over the
  connection the transport held (\<^verbatim>\<open>tls.Server\<close> on the server side, \<^verbatim>\<open>tls.Client\<close>
  otherwise), and has recorded TLS as the current encryption. On a transport whose
  current encryption is TLS already, the TLS option returns no error at once and changes
  nothing, and the option none fails with
  \<^verbatim>\<open>cannot downgrade from tls to none encryption\<close>, the transport unchanged.
\<close>

theorem SetEncryption_upgrade:
  "(encryption t \<noteq> SessionEncryptionTLS
      \<and> SetEncryption env ctx SessionEncryptionTLS t = (Returns None, t', calls) \<longrightarrow>
        (\<exists>c. conn t = Some c
              \<and> conn t' = Some (if server t then tls_Server c else tls_Client c))
        \<and> NetHandshake \<in> set calls
        \<and> Handshake_result env = None
        \<and> encryption t' = SessionEncryptionTLS)
   \<and> (encryption t = SessionEncryptionTLS \<longrightarrow>
        SetEncryption env ctx SessionEncryptionTLS t = (Returns None, t, [])
        \<and> SetEncryption env ctx SessionEncryptionNone t
            = (Returns (Some (errors_New ''cannot downgrade from tls to none encryption'')), t, []))"
proof (intro conjI impI)
  assume a: "encryption t \<noteq> SessionEncryptionTLS
      \<and> SetEncryption env ctx SessionEncryptionTLS t = (Returns None, t', calls)"
  then obtain c where c: "conn t = Some c"
      and t': "t' = (setConn (if server t then tls_Server c else tls_Client c) t)
                    \<lparr>encryption := SessionEncryptionTLS\<rparr>"
      and calls: "calls = [NetSetWriteDeadline, NetSetReadDeadline, NetHandshake]"
      and hs: "Handshake_result env = None"
    using SetEncryption_success [of env ctx SessionEncryptionTLS t t' calls] by auto
  show "\<exists>c. conn t = Some c \<and> conn t' = Some (if server t then tls_Server c else tls_Client c)"
    using c t' by (simp add: setConn_conn)
  show "NetHandshake \<in> set calls" using calls by simp
  show "Handshake_result env = None" by (rule hs)
  show "encryption t' = SessionEncryptionTLS" using t' by simp
next
  assume "encryption t = SessionEncryptionTLS"
  then show "SetEncryption env ctx SessionEncryptionTLS t = (Returns None, t, [])"
    by (simp add: SetEncryption_def)
next
  assume "encryption t = SessionEncryptionTLS"
  then show "SetEncryption env ctx SessionEncryptionNone t
            = (Returns (Some (errors_New ''cannot downgrade from tls to none encryption'')), t, [])"
    by (simp add: SetEncryption_def SessionEncryptionTLS_def SessionEncryptionNone_def)
qed

text \<open>
  A dialled client with a TLS configuration is upgraded: the handshake runs, the
  connection becomes \<^verbatim>\<open>tls.Client\<close> over the socket, TLS is recorded, and the way back
  to none is refused.
\<close>

theorem SetEncryption_upgrade_witness:
  "encryption (DialTcp (Some (tls_Config ''msging.net'')) (Socket 0)) \<noteq> SessionEncryptionTLS
   \<and> SetEncryption (quiet_env (ReadError io_EOF :: unit inbound)) (Some None) SessionEncryptionTLS
        (DialTcp (Some (tls_Config ''msging.net'')) (Socket 0))
      = (Returns None, tls_transport, [NetSetWriteDeadline, NetSetReadDeadline, NetHandshake])
   \<and> conn tls_transport = Some (tls_Client (Socket 0))
   \<and> encryption tls_transport = SessionEncryptionTLS
   \<and> SetEncryption (quiet_env (ReadError io_EOF :: unit inbound)) (Some None) SessionEncryptionNone
        tls_transport
      = (Returns (Some (errors_New ''cannot downgrade from tls to none encryption'')), tls_transport, [])"
proof -
  let ?t = "DialTcp (Some (tls_Config ''msging.net'')) (Socket 0)"
  let ?env = "quiet_env (ReadError io_EOF :: unit inbound)"
  have 1: "encryption ?t \<noteq> SessionEncryptionTLS"
    by (simp add: DialTcp_def SessionEncryptionNone_def SessionEncryptionTLS_def)
  have 2: "SetEncryption ?env (Some None) SessionEncryptionTLS ?t
      = (Returns None, tls_transport, [NetSetWriteDeadline, NetSetReadDeadline, NetHandshake])"
    by (simp add: SetEncryption_def DialTcp_def setConn_def zero_TCPTransport_def quiet_env_def Let_def DefaultReadLimit_def
        tls_transport_def SessionEncryptionNone_def SessionEncryptionTLS_def)
  have 3: "encryption tls_transport = SessionEncryptionTLS"
    by (simp add: tls_transport_def)
  have 4: "conn tls_transport = Some (tls_Client (Socket 0))"
    by (simp add: tls_transport_def setConn_conn)
  note up = SetEncryption_upgrade [of ?t ?env "Some None" tls_transport
      "[NetSetWriteDeadline, NetSetReadDeadline, NetHandshake]"]
  note down = SetEncryption_upgrade [of tls_transport ?env "Some None"]
  from up 1 2 have "encryption tls_transport = SessionEncryptionTLS" by blast
  moreover from down 3 have "SetEncryption ?env (Some None) SessionEncryptionNone tls_transport
      = (Returns (Some (errors_New ''cannot downgrade from tls to none encryption'')),
         tls_transport, [])" by blast
  ultimately show ?thesis using 1 2 4 by simp
qed

text \<open>
  C3 as stated fails on a transport that uses TLS already: the TLS option succeeds
  there without any handshake, the call list is empty and the connection is the one
  the transport held before.
\<close>

theorem SetEncryption_already_tls:
  "SetEncryption (quiet_env (ReadError io_EOF :: unit inbound)) (Some None) SessionEncryptionTLS
      tls_transport = (Returns None, tls_transport, [])
   \<and> conn tls_transport = Some (tls_Client (Socket 0))"
  by (simp add: SetEncryption_def tls_transport_def setConn_conn)

subsection \<open>The read limit\<close>




text \<open>
  A connection that breaks in the middle of a frame: the bytes that arrived are kept,
  and the end of file of the connection becomes \<^verbatim>\<open>unexpected EOF\<close>; another error
  of the connection is returned as it is; every later \<^verbatim>\<open>Receive\<close> returns the same
  error again.
\<close>

lemma Receive_broken_connection:
  "fst (Receive (Inr :: nat \<Rightarrow> error + nat) (quiet_env (PartialFrame 3 io_EOF)) (Some None)
         (Accept 10 None (Socket 0)))
     = Returns (Inl io_ErrUnexpectedEOF)
   \<and> fst (Receive (Inr :: nat \<Rightarrow> error + nat)
            (quiet_env (PartialFrame 3 (errors_New ''connection reset by peer''))) (Some None)
            (Accept 10 None (Socket 0)))
     = Returns (Inl (errors_New ''connection reset by peer''))
   \<and> fst (Receive (Inr :: nat \<Rightarrow> error + nat) (quiet_env (ReadError io_EOF)) (Some None)
         (Accept 10 None (Socket 0)))
     = Returns (Inl io_EOF)
   \<and> fst (Receive Inr (quiet_env (Frame 5 (Inr (1::nat)) 0)) (Some None)
         (fst (snd (Receive (Inr :: nat \<Rightarrow> error + nat) (quiet_env (PartialFrame 3 io_EOF))
                      (Some None) (Accept 10 None (Socket 0))))))
     = (Returns (Inl io_ErrUnexpectedEOF) :: (error + nat) outcome)"
  by (simp add: Receive_def Accept_def setConn_def zero_TCPTransport_def ensureOpen_def
      quiet_env_def Decode_def broken_read_def eof_error_def io_EOF_def io_ErrUnexpectedEOF_def
      Let_def)

subsection \<open>The closed transport\<close>

text \<open>
  C10, as the code has it. After a \<^verbatim>\<open>Close\<close> on an open transport (whatever closing
  the connection returned, so after a successful one in particular)
  \<^verbatim>\<open>IsConnected\<close> is false, and on the transport as \<^verbatim>\<open>Close\<close> left it every
  \<^verbatim>\<open>Send\<close> with a context and an envelope that are not nil, every \<^verbatim>\<open>Receive\<close> with
  a context that is not nil and every \<^verbatim>\<open>Close\<close> returns
  \<^verbatim>\<open>transport is not open\<close>, carries out no operation on the connection and leaves the
  transport as it was, so the same holds for the call after it.
\<close>

theorem closed_transport:
  "IsConnected t \<and> Close env t = (r, t', calls) \<longrightarrow>
     \<not> IsConnected t'
     \<and> (ctx \<noteq> None \<and> e \<noteq> None \<longrightarrow>
          Send env1 ctx e t' = (Returns (Some (errors_New ''transport is not open'')), t', []))
     \<and> (ctx \<noteq> None \<longrightarrow>
          Receive ToEnvelope env2 ctx t'
            = (Returns (Inl (errors_New ''transport is not open'')), t', []))
     \<and> Close env3 t' = (Returns (Some (errors_New ''transport is not open'')), t', [])"
proof (intro impI, elim conjE)
  assume op: "IsConnected t" and cl: "Close env t = (r, t', calls)"
  from op cl have t': "t' = t\<lparr>conn := None\<rparr>"
    by (simp add: Close_closes)
  then have closed: "conn t' = None" by simp
  then have eo: "ensureOpen t' = Some (errors_New ''transport is not open'')"
    by (rule ensureOpen_closed)
  have 1: "\<not> IsConnected t'" using closed by (simp add: IsConnected_def)
  have 2: "ctx \<noteq> None \<and> e \<noteq> None \<longrightarrow>
          Send env1 ctx e t' = (Returns (Some (errors_New ''transport is not open'')), t', [])"
    using eo by (simp add: Send_def)
  have 3: "ctx \<noteq> None \<longrightarrow>
          Receive ToEnvelope env2 ctx t'
            = (Returns (Inl (errors_New ''transport is not open'')), t', [])"
    using eo by (simp add: Receive_def)
  have 4: "Close env3 t' = (Returns (Some (errors_New ''transport is not open'')), t', [])"
    using eo by (simp add: Close_def)
  from 1 2 3 4 show "\<not> IsConnected t'
     \<and> (ctx \<noteq> None \<and> e \<noteq> None \<longrightarrow>
          Send env1 ctx e t' = (Returns (Some (errors_New ''transport is not open'')), t', []))
     \<and> (ctx \<noteq> None \<longrightarrow>
          Receive ToEnvelope env2 ctx t'
            = (Returns (Inl (errors_New ''transport is not open'')), t', []))
     \<and> Close env3 t' = (Returns (Some (errors_New ''transport is not open'')), t', [])"
    by blast
qed

theorem closed_transport_witness:
  "IsConnected (DialTcp None (Socket 0))
   \<and> \<not> IsConnected ((DialTcp None (Socket 0))\<lparr>conn := None\<rparr>)
   \<and> Send (quiet_env (ReadError io_EOF :: unit inbound)) (Some None) (Some (1::nat))
        ((DialTcp None (Socket 0))\<lparr>conn := None\<rparr>)
      = (Returns (Some (errors_New ''transport is not open'')),
         (DialTcp None (Socket 0))\<lparr>conn := None\<rparr>, [])
   \<and> Receive (Inr :: unit \<Rightarrow> error + unit) (quiet_env (ReadError io_EOF)) (Some None)
        ((DialTcp None (Socket 0))\<lparr>conn := None\<rparr>)
      = (Returns (Inl (errors_New ''transport is not open'')),
         (DialTcp None (Socket 0))\<lparr>conn := None\<rparr>, [])
   \<and> Close (quiet_env (ReadError io_EOF :: unit inbound))
        ((DialTcp None (Socket 0))\<lparr>conn := None\<rparr>)
      = (Returns (Some (errors_New ''transport is not open'')),
         (DialTcp None (Socket 0))\<lparr>conn := None\<rparr>, [])"
proof -
  let ?t = "DialTcp None (Socket 0)"
  let ?env = "quiet_env (ReadError io_EOF :: unit inbound)"
  have op: "IsConnected ?t"
    by (simp add: IsConnected_def DialTcp_def setConn_conn)
  then have cl: "Close ?env ?t = (Returns (Close_result ?env), ?t\<lparr>conn := None\<rparr>, [NetClose])"
    by (rule Close_closes)
  from closed_transport [of ?t ?env "Returns (Close_result ?env)" "?t\<lparr>conn := None\<rparr>"
      "[NetClose]" "Some None" "Some (1::nat)" ?env "Inr :: unit \<Rightarrow> error + unit" ?env ?env]
    op cl
  show ?thesis by simp
qed

text \<open>
  C10 as stated fails on a nil context: after a successful \<^verbatim>\<open>Close\<close>, a
  \<^verbatim>\<open>Send\<close> with a nil context panics before it looks at the connection.
\<close>

theorem closed_transport_nil_context:
  "fst (Close (quiet_env (ReadError io_EOF :: unit inbound)) (DialTcp None (Socket 0))) = Returns None
   \<and> fst (Send (quiet_env (ReadError io_EOF :: unit inbound)) None (Some (1::nat))
          (fst (snd (Close (quiet_env (ReadError io_EOF :: unit inbound)) (DialTcp None (Socket 0))))))
      = Panics ''nil context''"
  by (simp add: Close_def Send_def DialTcp_def setConn_def zero_TCPTransport_def ensureOpen_def quiet_env_def)


section \<open>Properties of the envelope codec\<close>

subsection \<open>Helper facts\<close>

lemma and_then_Inr: "and_then x f = Inr y \<longleftrightarrow> (\<exists>a. x = Inr a \<and> f a = Inr y)"
  by (cases x) (simp_all add: and_then_def)

lemma and_then_simps [simp]:
  "and_then (Inl e) f = Inl e" "and_then (Inr a) f = f a"
  by (simp_all add: and_then_def)

lemma json_Unmarshal_RawEnvelope_fields:
  assumes "json_Unmarshal_RawEnvelope (JObject members) = Inr raw"
  shows "type_field members = Inr (rawType raw)"
    and "event_field members = Inr (rawEvent raw)"
    and "reason_field members = Inr (rawReason raw)"
    and "rawContent raw = field members ''content''"
  using assms
  by (auto simp: json_Unmarshal_RawEnvelope_def and_then_Inr)

lemma field_absent: "map_of members k = None \<Longrightarrow> field members k = None"
  by (simp add: field_def)

lemma string_field_absent: "map_of members k = None \<Longrightarrow> string_field members k = Inr None"
  by (simp add: string_field_def field_absent)

lemma event_field_absent: "map_of members ''event'' = None \<Longrightarrow> event_field members = Inr None"
  by (simp add: event_field_def string_field_absent)

lemma type_field_absent: "map_of members ''type'' = None \<Longrightarrow> type_field members = Inr None"
  by (simp add: type_field_def string_field_absent)

lemma Notification_populate_no_event:
  "rawEvent raw = None \<Longrightarrow>
   fst (Notification_populate raw n) = Some (errors_New ''notification event is required'')"
  by (simp add: Notification_populate_def EnvelopeBase_Populate_def)

lemma Notification_UnmarshalJSON_error:
  "fst (Notification_UnmarshalJSON b n) \<noteq> None \<Longrightarrow> snd (Notification_UnmarshalJSON b n) = n"
  by (auto simp: Notification_UnmarshalJSON_def split: sum.splits prod.splits option.splits)

lemma Notification_UnmarshalJSON_no_event:
  assumes "map_of members ''event'' = None"
  shows "fst (Notification_UnmarshalJSON (JObject members) n) \<noteq> None"
proof (cases "json_Unmarshal_RawEnvelope (JObject members)")
  case (Inl e)
  then show ?thesis by (simp add: Notification_UnmarshalJSON_def)
next
  case (Inr raw)
  then have "event_field members = Inr (rawEvent raw)"
    by (rule json_Unmarshal_RawEnvelope_fields)
  with assms have "rawEvent raw = None" by (simp add: event_field_absent)
  then have "fst (Notification_populate raw zero_Notification) \<noteq> None"
    by (simp add: Notification_populate_no_event)
  with Inr show ?thesis
    by (auto simp: Notification_UnmarshalJSON_def split: prod.splits option.splits)
qed

subsection \<open>Notification events\<close>

lemma Validate_iff:
  "NotificationEvent_Validate e = None
     \<longleftrightarrow> e \<in> {''accepted'', ''dispatched'', ''received'', ''consumed'', ''failed''}"
  by (auto simp: NotificationEvent_Validate_def NotificationEventAccepted_def
      NotificationEventDispatched_def NotificationEventReceived_def
      NotificationEventConsumed_def NotificationEventFailed_def)

lemma Validate_error:
  "NotificationEvent_Validate e \<noteq> None \<Longrightarrow>
   NotificationEvent_Validate e
     = Some (fmt_Errorf (''invalid notification event '%v'' @ [CHR 0x27]) ArgPointer)"
  by (simp add: NotificationEvent_Validate_def split: if_splits)

text \<open>
  C5. \<^verbatim>\<open>Validate\<close> accepts exactly the five events \<^verbatim>\<open>accepted\<close>,
  \<^verbatim>\<open>dispatched\<close>, \<^verbatim>\<open>received\<close>, \<^verbatim>\<open>consumed\<close> and \<^verbatim>\<open>failed\<close>;
  \<^verbatim>\<open>MarshalText\<close> and \<^verbatim>\<open>UnmarshalText\<close> succeed on exactly these, giving back the
  text, and on any other string they return the error
  \<^verbatim>\<open>invalid notification event '...'\<close>, \<^verbatim>\<open>MarshalText\<close> with no bytes and
  \<^verbatim>\<open>UnmarshalText\<close> with its receiver unchanged. \<^verbatim>\<open>populate\<close> fails with
  \<^verbatim>\<open>notification event is required\<close> on a raw envelope without an event, and
  decoding a JSON object with no \<^verbatim>\<open>event\<close> member fails and leaves the notification
  as it was.
\<close>

theorem NotificationEvent_text:
  "(NotificationEvent_Validate e = None
      \<longleftrightarrow> e \<in> {''accepted'', ''dispatched'', ''received'', ''consumed'', ''failed''})
   \<and> (snd (NotificationEvent_MarshalText e) = None
      \<longleftrightarrow> e \<in> {''accepted'', ''dispatched'', ''received'', ''consumed'', ''failed''})
   \<and> (fst (NotificationEvent_UnmarshalText e e0) = None
      \<longleftrightarrow> e \<in> {''accepted'', ''dispatched'', ''received'', ''consumed'', ''failed''})
   \<and> (e \<in> {''accepted'', ''dispatched'', ''received'', ''consumed'', ''failed''} \<longrightarrow>
        NotificationEvent_MarshalText e = (e, None)
        \<and> NotificationEvent_UnmarshalText e e0 = (None, e))
   \<and> (e \<notin> {''accepted'', ''dispatched'', ''received'', ''consumed'', ''failed''} \<longrightarrow>
        NotificationEvent_MarshalText e
          = ([], Some (fmt_Errorf (''invalid notification event '%v'' @ [CHR 0x27]) ArgPointer))
        \<and> NotificationEvent_UnmarshalText e e0
          = (Some (fmt_Errorf (''invalid notification event '%v'' @ [CHR 0x27]) ArgPointer), e0))
   \<and> (rawEvent raw = None \<longrightarrow>
        fst (Notification_populate raw n) = Some (errors_New ''notification event is required''))
   \<and> (map_of members ''event'' = None \<longrightarrow>
        fst (Notification_UnmarshalJSON (JObject members) n) \<noteq> None
        \<and> snd (Notification_UnmarshalJSON (JObject members) n) = n)"
proof -
  let ?valid = "e \<in> {''accepted'', ''dispatched'', ''received'', ''consumed'', ''failed''}"
  let ?err = "fmt_Errorf (''invalid notification event '%v'' @ [CHR 0x27]) ArgPointer"
  have v: "NotificationEvent_Validate e = None \<longleftrightarrow> ?valid" by (rule Validate_iff)
  have bad: "NotificationEvent_Validate e = Some ?err" if "\<not> ?valid"
  proof -
    from that v have "NotificationEvent_Validate e \<noteq> None" by simp
    then show ?thesis by (rule Validate_error)
  qed
  have m_ok: "?valid \<Longrightarrow> NotificationEvent_MarshalText e = (e, None)"
    using v by (simp add: NotificationEvent_MarshalText_def)
  have m_bad: "\<not> ?valid \<Longrightarrow> NotificationEvent_MarshalText e = ([], Some ?err)"
    using bad by (simp add: NotificationEvent_MarshalText_def)
  have u_ok: "?valid \<Longrightarrow> NotificationEvent_UnmarshalText e e0 = (None, e)"
    using v by (simp add: NotificationEvent_UnmarshalText_def)
  have u_bad: "\<not> ?valid \<Longrightarrow> NotificationEvent_UnmarshalText e e0 = (Some ?err, e0)"
    using bad by (simp add: NotificationEvent_UnmarshalText_def)
  have m: "snd (NotificationEvent_MarshalText e) = None \<longleftrightarrow> ?valid"
    using m_ok m_bad by (cases ?valid) simp_all
  have u: "fst (NotificationEvent_UnmarshalText e e0) = None \<longleftrightarrow> ?valid"
    using u_ok u_bad by (cases ?valid) simp_all
  have p: "rawEvent raw = None \<longrightarrow>
        fst (Notification_populate raw n) = Some (errors_New ''notification event is required'')"
    by (simp add: Notification_populate_no_event)
  have j: "map_of members ''event'' = None \<longrightarrow>
        fst (Notification_UnmarshalJSON (JObject members) n) \<noteq> None
        \<and> snd (Notification_UnmarshalJSON (JObject members) n) = n"
    using Notification_UnmarshalJSON_no_event Notification_UnmarshalJSON_error by blast
  have ok: "?valid \<longrightarrow>
        NotificationEvent_MarshalText e = (e, None)
        \<and> NotificationEvent_UnmarshalText e e0 = (None, e)"
    using m_ok u_ok by simp
  have rejected: "\<not> ?valid \<longrightarrow>
        NotificationEvent_MarshalText e = ([], Some ?err)
        \<and> NotificationEvent_UnmarshalText e e0 = (Some ?err, e0)"
    using m_bad u_bad by simp
  show ?thesis
    using v m u ok rejected p j by (intro conjI)
qed

text \<open>
  \<^verbatim>\<open>consumed\<close> and \<^verbatim>\<open>failed\<close> pass, \<^verbatim>\<open>Failed\<close> and \<^verbatim>\<open>deleted\<close> do not, and
  \<^verbatim>\<open>{"id":"1"}\<close> is not a notification.
\<close>

theorem NotificationEvent_text_witness:
  "NotificationEvent_MarshalText ''consumed'' = (''consumed'', None)
   \<and> NotificationEvent_UnmarshalText ''failed'' [] = (None, ''failed'')
   \<and> NotificationEvent_Validate ''Failed'' \<noteq> None
   \<and> NotificationEvent_UnmarshalText ''deleted'' ''received''
       = (Some (fmt_Errorf (''invalid notification event '%v'' @ [CHR 0x27]) ArgPointer), ''received'')
   \<and> fst (Notification_populate
        \<lparr>rawID = ''1'', rawFrom = None, rawPP = None, rawTo = None, rawMetadata = [],
         rawType = None, rawContent = None, rawEvent = None, rawReason = None\<rparr> zero_Notification)
       = Some (errors_New ''notification event is required'')
   \<and> fst (Notification_UnmarshalJSON (JObject [(''id'', JString ''1'')]) zero_Notification) \<noteq> None"
proof -
  let ?raw = "\<lparr>rawID = ''1'', rawFrom = None, rawPP = None, rawTo = None, rawMetadata = [],
         rawType = None, rawContent = None, rawEvent = None, rawReason = None\<rparr>"
  note a = NotificationEvent_text [of "''consumed''" "[]" ?raw zero_Notification "[(''id'', JString ''1'')]"]
  note b = NotificationEvent_text [of "''failed''" "[]" ?raw zero_Notification "[]"]
  note c = NotificationEvent_text [of "''Failed''" "[]" ?raw zero_Notification "[]"]
  note d = NotificationEvent_text [of "''deleted''" "''received''" ?raw zero_Notification "[]"]
  from a have 1: "NotificationEvent_MarshalText ''consumed'' = (''consumed'', None)" by simp
  from b have 2: "NotificationEvent_UnmarshalText ''failed'' [] = (None, ''failed'')" by simp
  from c have 3: "NotificationEvent_Validate ''Failed'' \<noteq> None" by simp
  from d have 4: "NotificationEvent_UnmarshalText ''deleted'' ''received''
       = (Some (fmt_Errorf (''invalid notification event '%v'' @ [CHR 0x27]) ArgPointer), ''received'')"
    by simp
  from a have 5: "fst (Notification_populate ?raw zero_Notification)
       = Some (errors_New ''notification event is required'')" by simp
  from a have 6: "fst (Notification_UnmarshalJSON (JObject [(''id'', JString ''1'')]) zero_Notification) \<noteq> None"
    by simp
  from 1 2 3 4 5 6 show ?thesis by blast
qed


subsection \<open>Required fields of a message\<close>

lemma Message_ToRawEnvelope_no_content:
  "Content m = None \<Longrightarrow>
   Message_ToRawEnvelope m = Inl (errors_New ''message content is required'')"
  by (simp add: Message_ToRawEnvelope_def EnvelopeBase_ToRawEnvelope_def)

lemma Message_Populate_no_type:
  "rawType raw = None \<Longrightarrow>
   fst (Message_Populate reg raw m) = Some (errors_New ''message type is required'')"
  by (simp add: Message_Populate_def EnvelopeBase_Populate_def)

lemma Message_Populate_no_content:
  "rawType raw \<noteq> None \<Longrightarrow> rawContent raw = None \<Longrightarrow>
   fst (Message_Populate reg raw m) = Some (errors_New ''message content is required'')"
  by (auto simp: Message_Populate_def EnvelopeBase_Populate_def)

lemma Message_UnmarshalJSON_error:
  "fst (Message_UnmarshalJSON reg b m) \<noteq> None \<Longrightarrow> snd (Message_UnmarshalJSON reg b m) = m"
  by (auto simp: Message_UnmarshalJSON_def split: sum.splits prod.splits option.splits)

lemma Message_UnmarshalJSON_missing:
  assumes "map_of members ''type'' = None \<or> map_of members ''content'' = None"
  shows "fst (Message_UnmarshalJSON reg (JObject members) m) \<noteq> None"
proof (cases "json_Unmarshal_RawEnvelope (JObject members)")
  case (Inl e)
  then show ?thesis by (simp add: Message_UnmarshalJSON_def)
next
  case (Inr raw)
  then have ty: "type_field members = Inr (rawType raw)"
    and co: "rawContent raw = field members ''content''"
    by (rule json_Unmarshal_RawEnvelope_fields)+
  from assms have "rawType raw = None \<or> rawContent raw = None"
  proof
    assume "map_of members ''type'' = None"
    with ty show ?thesis by (simp add: type_field_absent)
  next
    assume "map_of members ''content'' = None"
    with co show ?thesis by (simp add: field_absent)
  qed
  then have "fst (Message_Populate reg raw zero_Message) \<noteq> None"
    using Message_Populate_no_type [of raw reg zero_Message]
      Message_Populate_no_content [of raw reg zero_Message] by (cases "rawType raw") auto
  with Inr show ?thesis
    by (auto simp: Message_UnmarshalJSON_def split: prod.splits option.splits)
qed

text \<open>
  C4. Serializing a message whose content is nil fails with
  \<^verbatim>\<open>message content is required\<close>, in \<^verbatim>\<open>ToRawEnvelope\<close> and so in
  \<^verbatim>\<open>MarshalJSON\<close>, which then returns no bytes. \<^verbatim>\<open>Populate\<close> fails with
  \<^verbatim>\<open>message type is required\<close> on a raw envelope without a type, and with
  \<^verbatim>\<open>message content is required\<close> on one with a type and without content.
  Decoding a JSON object that lacks the \<^verbatim>\<open>type\<close> member or the \<^verbatim>\<open>content\<close>
  member fails, and the message that \<^verbatim>\<open>UnmarshalJSON\<close> was called on is left as it
  was.
\<close>

theorem Message_required_fields:
  "(Content m = None \<longrightarrow>
      Message_ToRawEnvelope m = Inl (errors_New ''message content is required'')
      \<and> Message_MarshalJSON m = Inl (errors_New ''message content is required''))
   \<and> (rawType raw = None \<longrightarrow>
      fst (Message_Populate reg raw m1) = Some (errors_New ''message type is required''))
   \<and> (rawType raw \<noteq> None \<and> rawContent raw = None \<longrightarrow>
      fst (Message_Populate reg raw m1) = Some (errors_New ''message content is required''))
   \<and> (map_of members ''type'' = None \<or> map_of members ''content'' = None \<longrightarrow>
      fst (Message_UnmarshalJSON reg (JObject members) m2) \<noteq> None
      \<and> snd (Message_UnmarshalJSON reg (JObject members) m2) = m2)"
proof (intro conjI impI)
  assume "Content m = None"
  then show "Message_ToRawEnvelope m = Inl (errors_New ''message content is required'')"
    by (rule Message_ToRawEnvelope_no_content)
  then show "Message_MarshalJSON m = Inl (errors_New ''message content is required'')"
    by (simp add: Message_MarshalJSON_def)
next
  assume "rawType raw = None"
  then show "fst (Message_Populate reg raw m1) = Some (errors_New ''message type is required'')"
    by (rule Message_Populate_no_type)
next
  assume "rawType raw \<noteq> None \<and> rawContent raw = None"
  then show "fst (Message_Populate reg raw m1) = Some (errors_New ''message content is required'')"
    by (simp add: Message_Populate_no_content)
next
  assume a: "map_of members ''type'' = None \<or> map_of members ''content'' = None"
  then show e: "fst (Message_UnmarshalJSON reg (JObject members) m2) \<noteq> None"
    by (rule Message_UnmarshalJSON_missing)
  then show "snd (Message_UnmarshalJSON reg (JObject members) m2) = m2"
    by (rule Message_UnmarshalJSON_error)
qed

lemma unmarshal_no_type:
  "json_Unmarshal_RawEnvelope (JObject [(''id'', JString ''1''), (''content'', JString ''Hello world'')])
     = Inr \<lparr>rawID = ''1'', rawFrom = None, rawPP = None, rawTo = None, rawMetadata = [],
         rawType = None, rawContent = Some (JString ''Hello world''), rawEvent = None,
         rawReason = None\<rparr>"
  by (simp add: json_Unmarshal_RawEnvelope_def string_field_def
        node_field_def type_field_def event_field_def reason_field_def metadata_field_def
        field_def)

lemma unmarshal_no_content:
  "json_Unmarshal_RawEnvelope (JObject [(''id'', JString ''1''), (''type'', JString ''text/plain'')])
     = Inr \<lparr>rawID = ''1'', rawFrom = None, rawPP = None, rawTo = None, rawMetadata = [],
         rawType = Some (MediaType ''text'' ''plain'' []), rawContent = None, rawEvent = None,
         rawReason = None\<rparr>"
  by (simp add: json_Unmarshal_RawEnvelope_def string_field_def
        node_field_def type_field_def event_field_def reason_field_def metadata_field_def
        field_def ParseMediaType_def MediaType_UnmarshalText_def)

text \<open>
  The test message without its content does not serialize; an envelope without
  \<^verbatim>\<open>type\<close> and one without \<^verbatim>\<open>content\<close> do not decode, each with the error of the
  field that is missing.
\<close>

theorem Message_required_fields_witness:
  "Message_MarshalJSON (createMessage\<lparr>Content := None\<rparr>)
      = Inl (errors_New ''message content is required'')
   \<and> Message_UnmarshalJSON default_registry
        (JObject [(''id'', JString ''1''), (''content'', JString ''Hello world'')]) createMessage
      = (Some (errors_New ''message type is required''), createMessage)
   \<and> Message_UnmarshalJSON default_registry
        (JObject [(''id'', JString ''1''), (''type'', JString ''text/plain'')]) createMessage
      = (Some (errors_New ''message content is required''), createMessage)"
proof -
  let ?no_type = "[(''id'', JString ''1''), (''content'', JString ''Hello world'')]"
  let ?no_content = "[(''id'', JString ''1''), (''type'', JString ''text/plain'')]"
  let ?raw = "\<lparr>rawID = ''1'', rawFrom = None, rawPP = None, rawTo = None, rawMetadata = [],
         rawType = None, rawContent = None, rawEvent = None, rawReason = None\<rparr>"
  note a = Message_required_fields [of "createMessage\<lparr>Content := None\<rparr>" ?raw default_registry
      zero_Message ?no_type createMessage]
  note b = Message_required_fields [of "createMessage\<lparr>Content := None\<rparr>" ?raw default_registry
      zero_Message ?no_content createMessage]
  from a have 1: "Message_MarshalJSON (createMessage\<lparr>Content := None\<rparr>)
      = Inl (errors_New ''message content is required'')" by simp
  from a have 2: "snd (Message_UnmarshalJSON default_registry (JObject ?no_type) createMessage)
      = createMessage" by simp
  from b have 3: "snd (Message_UnmarshalJSON default_registry (JObject ?no_content) createMessage)
      = createMessage" by simp
  have 4: "fst (Message_UnmarshalJSON default_registry (JObject ?no_type) createMessage)
      = Some (errors_New ''message type is required'')"
    by (simp add: Message_UnmarshalJSON_def unmarshal_no_type Message_Populate_def
        EnvelopeBase_Populate_def)
  have 5: "fst (Message_UnmarshalJSON default_registry (JObject ?no_content) createMessage)
      = Some (errors_New ''message content is required'')"
    by (simp add: Message_UnmarshalJSON_def unmarshal_no_content Message_Populate_def
        EnvelopeBase_Populate_def)
  from 1 2 3 4 5 show ?thesis by (simp add: prod_eq_iff)
qed


subsection \<open>The reason of a failed notification\<close>










subsection \<open>Documents without a registered factory\<close>








lemma map_of_put:
  "map_of (put k x ms) k' = (if k' = k \<and> x \<noteq> None then x else map_of ms k')"
  by (cases x) auto



lemmas unmarshal_defs = json_Unmarshal_RawEnvelope_def string_field_def node_field_def
  type_field_def event_field_def reason_field_def metadata_field_def field_def
  ParseMediaType_def MediaType_UnmarshalText_def ParseNode_def ParseIdentity_def split_last_def




subsection \<open>The serialized form of an envelope\<close>

lemma json_Marshal_Document_total: "\<exists>b. json_Marshal_Document d = Inr b"
  by (cases d) simp_all

lemma json_of_type_Inr:
  "json_of_type ty = Inr (map_option (\<lambda>t. JString (MediaType_String t)) ty)"
  by (cases ty) (simp_all add: json_of_type_def MediaType_MarshalText_def)

lemma json_Marshal_RawEnvelope_members:
  assumes "json_Marshal_RawEnvelope raw = Inr j"
  shows "\<exists>event. json_of_event (rawEvent raw) = Inr event \<and> j = JObject
         (put ''id'' (if rawID raw = [] then None else Some (JString (rawID raw)))
         (put ''from'' (map_option (\<lambda>n. JString (Node_String n)) (rawFrom raw))
         (put ''pp'' (map_option (\<lambda>n. JString (Node_String n)) (rawPP raw))
         (put ''to'' (map_option (\<lambda>n. JString (Node_String n)) (rawTo raw))
         (put ''type'' (map_option (\<lambda>t. JString (MediaType_String t)) (rawType raw))
         (put ''content'' (rawContent raw)
         (put ''event'' event
         (put ''reason'' (map_option json_of_Reason (rawReason raw))
         (put ''metadata''
            (if rawMetadata raw = [] then None else Some (json_of_metadata (rawMetadata raw)))
            [])))))))))"
  using assms by (auto simp: json_Marshal_RawEnvelope_def and_then_Inr json_of_type_Inr)

lemma node_member:
  assumes "member = map_option (\<lambda>n. JString (Node_String n)) (node_pointer node)"
  shows "node = Node (Identity name domain) instance \<and> domain \<noteq> [] \<and> instance \<noteq> [] \<longrightarrow>
            member = Some (JString (name @ ''@'' @ domain @ ''/'' @ instance))"
    and "node \<noteq> zero_Node \<longrightarrow> member = Some (JString (Node_String node))"
  using assms by (auto simp: node_pointer_def zero_Node_def)

lemma surface_of_raw:
  assumes j: "json_Marshal_RawEnvelope raw = Inr (JObject members)"
    and md: "rawMetadata raw = Metadata env"
    and "to": "rawTo raw = node_pointer (To env)"
    and frm: "rawFrom raw = node_pointer (From env)"
    and pp: "rawPP raw = node_pointer (PP env)"
  shows "Metadata env = [] \<longrightarrow>
              map_of members ''metadata'' = None \<and> ''metadata'' \<notin> fst ` set members"
    and "Metadata env \<noteq> [] \<longrightarrow>
              map_of members ''metadata''
                = Some (JObject (map (\<lambda>(k, v). (k, JString v)) (Metadata env)))"
    and "To env = Node (Identity name domain) instance \<and> domain \<noteq> [] \<and> instance \<noteq> [] \<longrightarrow>
              map_of members ''to'' = Some (JString (name @ ''@'' @ domain @ ''/'' @ instance))"
    and "From env = Node (Identity name domain) instance \<and> domain \<noteq> [] \<and> instance \<noteq> [] \<longrightarrow>
              map_of members ''from'' = Some (JString (name @ ''@'' @ domain @ ''/'' @ instance))"
    and "PP env = Node (Identity name domain) instance \<and> domain \<noteq> [] \<and> instance \<noteq> [] \<longrightarrow>
              map_of members ''pp'' = Some (JString (name @ ''@'' @ domain @ ''/'' @ instance))"
    and "To env \<noteq> zero_Node \<longrightarrow>
              map_of members ''to'' = Some (JString (Node_String (To env)))"
    and "From env \<noteq> zero_Node \<longrightarrow>
              map_of members ''from'' = Some (JString (Node_String (From env)))"
    and "PP env \<noteq> zero_Node \<longrightarrow>
              map_of members ''pp'' = Some (JString (Node_String (PP env)))"
proof -
  from j obtain event where members: "members =
         (put ''id'' (if rawID raw = [] then None else Some (JString (rawID raw)))
         (put ''from'' (map_option (\<lambda>n. JString (Node_String n)) (rawFrom raw))
         (put ''pp'' (map_option (\<lambda>n. JString (Node_String n)) (rawPP raw))
         (put ''to'' (map_option (\<lambda>n. JString (Node_String n)) (rawTo raw))
         (put ''type'' (map_option (\<lambda>t. JString (MediaType_String t)) (rawType raw))
         (put ''content'' (rawContent raw)
         (put ''event'' event
         (put ''reason'' (map_option json_of_Reason (rawReason raw))
         (put ''metadata''
            (if rawMetadata raw = [] then None else Some (json_of_metadata (rawMetadata raw)))
            [])))))))))"
    using json_Marshal_RawEnvelope_members by blast
  have l_md: "map_of members ''metadata''
      = (if Metadata env = [] then None else Some (json_of_metadata (Metadata env)))"
    unfolding members md by (simp add: map_of_put del: put.simps)
  have l_to: "map_of members ''to''
      = map_option (\<lambda>n. JString (Node_String n)) (node_pointer (To env))"
    unfolding members "to"
    by (cases "node_pointer (To env)") (simp_all add: map_of_put del: put.simps)
  have l_from: "map_of members ''from''
      = map_option (\<lambda>n. JString (Node_String n)) (node_pointer (From env))"
    unfolding members frm
    by (cases "node_pointer (From env)") (simp_all add: map_of_put del: put.simps)
  have l_pp: "map_of members ''pp''
      = map_option (\<lambda>n. JString (Node_String n)) (node_pointer (PP env))"
    unfolding members pp
    by (cases "node_pointer (PP env)") (simp_all add: map_of_put del: put.simps)
  show "Metadata env = [] \<longrightarrow>
      map_of members ''metadata'' = None \<and> ''metadata'' \<notin> fst ` set members"
  proof
    assume "Metadata env = []"
    with l_md have none: "map_of members ''metadata'' = None" by simp
    then have "''metadata'' \<notin> fst ` set members" by (rule iffD1 [OF map_of_eq_None_iff])
    with none show "map_of members ''metadata'' = None \<and> ''metadata'' \<notin> fst ` set members" ..
  qed
  show "Metadata env \<noteq> [] \<longrightarrow> map_of members ''metadata''
                = Some (JObject (map (\<lambda>(k, v). (k, JString v)) (Metadata env)))"
    using l_md by (simp add: json_of_metadata_def)
  show "To env = Node (Identity name domain) instance \<and> domain \<noteq> [] \<and> instance \<noteq> [] \<longrightarrow>
              map_of members ''to'' = Some (JString (name @ ''@'' @ domain @ ''/'' @ instance))"
    using l_to by (rule node_member(1))
  show "From env = Node (Identity name domain) instance \<and> domain \<noteq> [] \<and> instance \<noteq> [] \<longrightarrow>
              map_of members ''from'' = Some (JString (name @ ''@'' @ domain @ ''/'' @ instance))"
    using l_from by (rule node_member(1))
  show "PP env = Node (Identity name domain) instance \<and> domain \<noteq> [] \<and> instance \<noteq> [] \<longrightarrow>
              map_of members ''pp'' = Some (JString (name @ ''@'' @ domain @ ''/'' @ instance))"
    using l_pp by (rule node_member(1))
  show "To env \<noteq> zero_Node \<longrightarrow> map_of members ''to'' = Some (JString (Node_String (To env)))"
    using l_to by (rule node_member(2))
  show "From env \<noteq> zero_Node \<longrightarrow>
      map_of members ''from'' = Some (JString (Node_String (From env)))"
    using l_from by (rule node_member(2))
  show "PP env \<noteq> zero_Node \<longrightarrow> map_of members ''pp'' = Some (JString (Node_String (PP env)))"
    using l_pp by (rule node_member(2))
qed

lemma Message_MarshalJSON_content:
  assumes "Content m = Some d"
  shows "\<exists>raw members. Message_MarshalJSON m = Inr (JObject members)
     \<and> json_Marshal_RawEnvelope raw = Inr (JObject members)
     \<and> rawMetadata raw = Metadata m \<and> rawTo raw = node_pointer (To m)
     \<and> rawFrom raw = node_pointer (From m) \<and> rawPP raw = node_pointer (PP m)"
proof -
  obtain b where b: "json_Marshal_Document d = Inr b"
    using json_Marshal_Document_total by blast
  define raw where "raw =
     \<lparr>rawID = ID m, rawFrom = node_pointer (From m), rawPP = node_pointer (PP m),
      rawTo = node_pointer (To m), rawMetadata = Metadata m, rawType = Some (Type m),
      rawContent = Some b, rawEvent = None, rawReason = None\<rparr>"
  have to_raw: "Message_ToRawEnvelope m = Inr raw"
    using assms b
    by (simp add: Message_ToRawEnvelope_def EnvelopeBase_ToRawEnvelope_def raw_def)
  obtain members where j: "json_Marshal_RawEnvelope raw = Inr (JObject members)"
    by (simp add: json_Marshal_RawEnvelope_def json_of_event_def json_of_type_Inr raw_def)
  have "Message_MarshalJSON m = Inr (JObject members)"
    using to_raw j by (simp add: Message_MarshalJSON_def)
  moreover have "rawMetadata raw = Metadata m \<and> rawTo raw = node_pointer (To m)
     \<and> rawFrom raw = node_pointer (From m) \<and> rawPP raw = node_pointer (PP m)"
    by (simp add: raw_def)
  ultimately show ?thesis using j by blast
qed

lemma Notification_MarshalJSON_event:
  assumes "Event n = [] \<or> NotificationEvent_Validate (Event n) = None"
  shows "\<exists>raw members. Notification_MarshalJSON n = Inr (JObject members)
     \<and> json_Marshal_RawEnvelope raw = Inr (JObject members)
     \<and> rawMetadata raw = Metadata n \<and> rawTo raw = node_pointer (To n)
     \<and> rawFrom raw = node_pointer (From n) \<and> rawPP raw = node_pointer (PP n)"
proof -
  define raw where "raw =
     \<lparr>rawID = ID n, rawFrom = node_pointer (From n), rawPP = node_pointer (PP n),
      rawTo = node_pointer (To n), rawMetadata = Metadata n, rawType = None,
      rawContent = None, rawEvent = (if Event n \<noteq> [] then Some (Event n) else None),
      rawReason = Reason n\<rparr>"
  have to_raw: "Notification_toRawEnvelope n = Inr raw"
    by (simp add: Notification_toRawEnvelope_def EnvelopeBase_ToRawEnvelope_def raw_def)
  have "\<exists>event. json_of_event (rawEvent raw) = Inr event"
    using assms
    by (auto simp: json_of_event_def NotificationEvent_MarshalText_def raw_def)
  then obtain members where j: "json_Marshal_RawEnvelope raw = Inr (JObject members)"
    by (auto simp: json_Marshal_RawEnvelope_def json_of_type_Inr)
  have "Notification_MarshalJSON n = Inr (JObject members)"
    using to_raw j by (simp add: Notification_MarshalJSON_def)
  moreover have "rawMetadata raw = Metadata n \<and> rawTo raw = node_pointer (To n)
     \<and> rawFrom raw = node_pointer (From n) \<and> rawPP raw = node_pointer (PP n)"
    by (simp add: raw_def)
  ultimately show ?thesis using j by blast
qed

text \<open>
  C8. \<^verbatim>\<open>MarshalJSON\<close> of a message whose content is not nil, and of a notification
  whose event is empty or one of the five valid events, returns a JSON object. When
  the metadata of the envelope is empty, the object has no \<^verbatim>\<open>metadata\<close> member;
  when it is not, the member \<^verbatim>\<open>metadata\<close> is the object of the entries, each value
  a JSON string. A node \<^verbatim>\<open>to\<close>, \<^verbatim>\<open>from\<close> or \<^verbatim>\<open>pp\<close> whose domain and instance
  are not empty is written as the JSON string \<^verbatim>\<open>name@domain/instance\<close>, and every
  such node that is not the zero node as the JSON string of its textual form, not as
  a nested object.
\<close>

theorem Message_MarshalJSON_surface:
  "(Content m = Some d \<longrightarrow>
     (\<exists>members. Message_MarshalJSON m = Inr (JObject members)
        \<and> (Metadata m = [] \<longrightarrow>
              map_of members ''metadata'' = None \<and> ''metadata'' \<notin> fst ` set members)
        \<and> (Metadata m \<noteq> [] \<longrightarrow>
              map_of members ''metadata''
                = Some (JObject (map (\<lambda>(k, v). (k, JString v)) (Metadata m))))
        \<and> (To m = Node (Identity name domain) instance \<and> domain \<noteq> [] \<and> instance \<noteq> [] \<longrightarrow>
              map_of members ''to'' = Some (JString (name @ ''@'' @ domain @ ''/'' @ instance)))
        \<and> (From m = Node (Identity name domain) instance \<and> domain \<noteq> [] \<and> instance \<noteq> [] \<longrightarrow>
              map_of members ''from'' = Some (JString (name @ ''@'' @ domain @ ''/'' @ instance)))
        \<and> (PP m = Node (Identity name domain) instance \<and> domain \<noteq> [] \<and> instance \<noteq> [] \<longrightarrow>
              map_of members ''pp'' = Some (JString (name @ ''@'' @ domain @ ''/'' @ instance)))
        \<and> (To m \<noteq> zero_Node \<longrightarrow>
              map_of members ''to'' = Some (JString (Node_String (To m))))
        \<and> (From m \<noteq> zero_Node \<longrightarrow>
              map_of members ''from'' = Some (JString (Node_String (From m))))
        \<and> (PP m \<noteq> zero_Node \<longrightarrow>
              map_of members ''pp'' = Some (JString (Node_String (PP m))))))
   \<and> (Event n = [] \<or> NotificationEvent_Validate (Event n) = None \<longrightarrow>
     (\<exists>members. Notification_MarshalJSON n = Inr (JObject members)
        \<and> (Metadata n = [] \<longrightarrow>
              map_of members ''metadata'' = None \<and> ''metadata'' \<notin> fst ` set members)
        \<and> (Metadata n \<noteq> [] \<longrightarrow>
              map_of members ''metadata''
                = Some (JObject (map (\<lambda>(k, v). (k, JString v)) (Metadata n))))
        \<and> (To n = Node (Identity name domain) instance \<and> domain \<noteq> [] \<and> instance \<noteq> [] \<longrightarrow>
              map_of members ''to'' = Some (JString (name @ ''@'' @ domain @ ''/'' @ instance)))
        \<and> (From n = Node (Identity name domain) instance \<and> domain \<noteq> [] \<and> instance \<noteq> [] \<longrightarrow>
              map_of members ''from'' = Some (JString (name @ ''@'' @ domain @ ''/'' @ instance)))
        \<and> (PP n = Node (Identity name domain) instance \<and> domain \<noteq> [] \<and> instance \<noteq> [] \<longrightarrow>
              map_of members ''pp'' = Some (JString (name @ ''@'' @ domain @ ''/'' @ instance)))
        \<and> (To n \<noteq> zero_Node \<longrightarrow>
              map_of members ''to'' = Some (JString (Node_String (To n))))
        \<and> (From n \<noteq> zero_Node \<longrightarrow>
              map_of members ''from'' = Some (JString (Node_String (From n))))
        \<and> (PP n \<noteq> zero_Node \<longrightarrow>
              map_of members ''pp'' = Some (JString (Node_String (PP n))))))"
proof (intro conjI impI)
  assume "Content m = Some d"
  then obtain raw members where j: "Message_MarshalJSON m = Inr (JObject members)"
    and r: "json_Marshal_RawEnvelope raw = Inr (JObject members)"
      "rawMetadata raw = Metadata m" "rawTo raw = node_pointer (To m)"
      "rawFrom raw = node_pointer (From m)" "rawPP raw = node_pointer (PP m)"
    using Message_MarshalJSON_content by blast
  note s = surface_of_raw [OF r]
  from j s show "\<exists>members. Message_MarshalJSON m = Inr (JObject members)
        \<and> (Metadata m = [] \<longrightarrow>
              map_of members ''metadata'' = None \<and> ''metadata'' \<notin> fst ` set members)
        \<and> (Metadata m \<noteq> [] \<longrightarrow>
              map_of members ''metadata''
                = Some (JObject (map (\<lambda>(k, v). (k, JString v)) (Metadata m))))
        \<and> (To m = Node (Identity name domain) instance \<and> domain \<noteq> [] \<and> instance \<noteq> [] \<longrightarrow>
              map_of members ''to'' = Some (JString (name @ ''@'' @ domain @ ''/'' @ instance)))
        \<and> (From m = Node (Identity name domain) instance \<and> domain \<noteq> [] \<and> instance \<noteq> [] \<longrightarrow>
              map_of members ''from'' = Some (JString (name @ ''@'' @ domain @ ''/'' @ instance)))
        \<and> (PP m = Node (Identity name domain) instance \<and> domain \<noteq> [] \<and> instance \<noteq> [] \<longrightarrow>
              map_of members ''pp'' = Some (JString (name @ ''@'' @ domain @ ''/'' @ instance)))
        \<and> (To m \<noteq> zero_Node \<longrightarrow>
              map_of members ''to'' = Some (JString (Node_String (To m))))
        \<and> (From m \<noteq> zero_Node \<longrightarrow>
              map_of members ''from'' = Some (JString (Node_String (From m))))
        \<and> (PP m \<noteq> zero_Node \<longrightarrow>
              map_of members ''pp'' = Some (JString (Node_String (PP m))))"
    by (intro exI [of _ members] conjI)
next
  assume "Event n = [] \<or> NotificationEvent_Validate (Event n) = None"
  then obtain raw members where j: "Notification_MarshalJSON n = Inr (JObject members)"
    and r: "json_Marshal_RawEnvelope raw = Inr (JObject members)"
      "rawMetadata raw = Metadata n" "rawTo raw = node_pointer (To n)"
      "rawFrom raw = node_pointer (From n)" "rawPP raw = node_pointer (PP n)"
    using Notification_MarshalJSON_event by blast
  note s = surface_of_raw [OF r]
  from j s show "\<exists>members. Notification_MarshalJSON n = Inr (JObject members)
        \<and> (Metadata n = [] \<longrightarrow>
              map_of members ''metadata'' = None \<and> ''metadata'' \<notin> fst ` set members)
        \<and> (Metadata n \<noteq> [] \<longrightarrow>
              map_of members ''metadata''
                = Some (JObject (map (\<lambda>(k, v). (k, JString v)) (Metadata n))))
        \<and> (To n = Node (Identity name domain) instance \<and> domain \<noteq> [] \<and> instance \<noteq> [] \<longrightarrow>
              map_of members ''to'' = Some (JString (name @ ''@'' @ domain @ ''/'' @ instance)))
        \<and> (From n = Node (Identity name domain) instance \<and> domain \<noteq> [] \<and> instance \<noteq> [] \<longrightarrow>
              map_of members ''from'' = Some (JString (name @ ''@'' @ domain @ ''/'' @ instance)))
        \<and> (PP n = Node (Identity name domain) instance \<and> domain \<noteq> [] \<and> instance \<noteq> [] \<longrightarrow>
              map_of members ''pp'' = Some (JString (name @ ''@'' @ domain @ ''/'' @ instance)))
        \<and> (To n \<noteq> zero_Node \<longrightarrow>
              map_of members ''to'' = Some (JString (Node_String (To n))))
        \<and> (From n \<noteq> zero_Node \<longrightarrow>
              map_of members ''from'' = Some (JString (Node_String (From n))))
        \<and> (PP n \<noteq> zero_Node \<longrightarrow>
              map_of members ''pp'' = Some (JString (Node_String (PP n))))"
    by (intro exI [of _ members] conjI)
qed

lemmas marshal_defs = Message_MarshalJSON_def Message_ToRawEnvelope_def SetContent_def
  zero_Message_def EnvelopeBase_ToRawEnvelope_def node_pointer_def zero_Node_def
  json_Marshal_RawEnvelope_def json_of_event_def json_of_type_def MediaType_MarshalText_def
  zero_MediaType_def mediaTypeTextPlain_def mediaTypeApplicationJson_def MediaTypeText_def
  MediaTypeApplication_def json_of_metadata_def test_envelope_def

text \<open>TestMessage\_MarshalJSON\_TextPlain and TestMessage\_MarshalJSON\_Metadata.\<close>

lemma TestMessage_MarshalJSON_TextPlain:
  "Message_MarshalJSON createMessage
     = Inr (test_envelope ''text/plain'' (JString ''Hello world'') [])"
  by (simp add: createMessage_def marshal_defs)

lemma TestMessage_MarshalJSON_Metadata:
  "Message_MarshalJSON metadata_message
     = Inr (test_envelope ''text/plain'' (JString ''Hello world'')
         [(''metadata'', JObject [(''property1'', JString ''value1''),
                                  (''property2'', JString ''value2'')])])"
  by (simp add: metadata_message_def createMessage_def marshal_defs)

text \<open>
  TestMessage\_MarshalJSON\_Metadata: the member \<^verbatim>\<open>metadata\<close> is the object of the two
  entries, and the destination is written \<^verbatim>\<open>golang@limeprotocol.org/default\<close>.
  TestMessage\_MarshalJSON\_TextPlain: the same message without metadata has no
  \<^verbatim>\<open>metadata\<close> member. A notification from the same node has it as its
  \<^verbatim>\<open>from\<close> member, and no \<^verbatim>\<open>metadata\<close> member.
\<close>

theorem Message_MarshalJSON_surface_witness:
  "Message_MarshalJSON metadata_message
     = Inr (JObject [(''id'', JString ''4609d0a3-00eb-4e16-9d44-27d115c6eb31''),
               (''to'', JString ''golang@limeprotocol.org/default''),
               (''type'', JString ''text/plain''),
               (''content'', JString ''Hello world''),
               (''metadata'', JObject [(''property1'', JString ''value1''),
                                       (''property2'', JString ''value2'')])])
   \<and> Message_MarshalJSON createMessage
     = Inr (JObject [(''id'', JString ''4609d0a3-00eb-4e16-9d44-27d115c6eb31''),
               (''to'', JString ''golang@limeprotocol.org/default''),
               (''type'', JString ''text/plain''),
               (''content'', JString ''Hello world'')])
   \<and> Notification_MarshalJSON received_notification
     = Inr (JObject [(''id'', JString ''4609d0a3-00eb-4e16-9d44-27d115c6eb31''),
               (''from'', JString ''golang@limeprotocol.org/default''),
               (''event'', JString ''received'')])
   \<and> (\<exists>members. Message_MarshalJSON metadata_message = Inr (JObject members)
        \<and> map_of members ''metadata''
            = Some (JObject [(''property1'', JString ''value1''),
                             (''property2'', JString ''value2'')])
        \<and> map_of members ''to'' = Some (JString ''golang@limeprotocol.org/default''))
   \<and> (\<exists>members. Message_MarshalJSON createMessage = Inr (JObject members)
        \<and> ''metadata'' \<notin> fst ` set members
        \<and> map_of members ''to'' = Some (JString ''golang@limeprotocol.org/default''))
   \<and> (\<exists>members. Notification_MarshalJSON received_notification = Inr (JObject members)
        \<and> ''metadata'' \<notin> fst ` set members
        \<and> map_of members ''from'' = Some (JString ''golang@limeprotocol.org/default''))"
proof -
  let ?to = "Node (Identity ''golang'' ''limeprotocol.org'') ''default''"
  have ne: "''limeprotocol.org'' \<noteq> []" "''default'' \<noteq> []" by simp_all
  have with_md: "Content metadata_message = Some (PlainDocument ''Hello world'')"
    "Metadata metadata_message \<noteq> []"
    "map (\<lambda>(k, v). (k, JString v)) (Metadata metadata_message)
       = [(''property1'', JString ''value1''), (''property2'', JString ''value2'')]"
    "To metadata_message = ?to"
    by (simp_all add: metadata_message_def createMessage_def SetContent_def zero_Message_def)
  have without: "Content createMessage = Some (PlainDocument ''Hello world'')"
    "Metadata createMessage = []" "To createMessage = ?to"
    by (simp_all add: createMessage_def SetContent_def zero_Message_def)
  have notif: "NotificationEvent_Validate (Event received_notification) = None"
    "Metadata received_notification = []" "From received_notification = ?to"
    by (simp_all add: received_notification_def zero_Notification_def
        NotificationEvent_Validate_def)
  note a = Message_MarshalJSON_surface [of metadata_message "PlainDocument ''Hello world''"
      "''golang''" "''limeprotocol.org''" "''default''" received_notification]
  note b = Message_MarshalJSON_surface [of createMessage "PlainDocument ''Hello world''"
      "''golang''" "''limeprotocol.org''" "''default''" received_notification]
  from a [THEN conjunct1, THEN mp, OF with_md(1)] obtain members where
    "Message_MarshalJSON metadata_message = Inr (JObject members)"
    "Metadata metadata_message \<noteq> [] \<longrightarrow>
       map_of members ''metadata''
         = Some (JObject (map (\<lambda>(k, v). (k, JString v)) (Metadata metadata_message)))"
    "To metadata_message = ?to \<and> ''limeprotocol.org'' \<noteq> [] \<and> ''default'' \<noteq> [] \<longrightarrow>
       map_of members ''to''
         = Some (JString (''golang'' @ ''@'' @ ''limeprotocol.org'' @ ''/'' @ ''default''))"
    by (elim exE conjE) (rule that)
  with with_md ne
  have 4: "\<exists>members. Message_MarshalJSON metadata_message = Inr (JObject members)
        \<and> map_of members ''metadata''
            = Some (JObject [(''property1'', JString ''value1''),
                             (''property2'', JString ''value2'')])
        \<and> map_of members ''to'' = Some (JString ''golang@limeprotocol.org/default'')"
    by (intro exI [of _ members]) simp
  from b [THEN conjunct1, THEN mp, OF without(1)] obtain members where
    "Message_MarshalJSON createMessage = Inr (JObject members)"
    "Metadata createMessage = [] \<longrightarrow>
       map_of members ''metadata'' = None \<and> ''metadata'' \<notin> fst ` set members"
    "To createMessage = ?to \<and> ''limeprotocol.org'' \<noteq> [] \<and> ''default'' \<noteq> [] \<longrightarrow>
       map_of members ''to''
         = Some (JString (''golang'' @ ''@'' @ ''limeprotocol.org'' @ ''/'' @ ''default''))"
    by (elim exE conjE) (rule that)
  with without ne
  have 5: "\<exists>members. Message_MarshalJSON createMessage = Inr (JObject members)
        \<and> ''metadata'' \<notin> fst ` set members
        \<and> map_of members ''to'' = Some (JString ''golang@limeprotocol.org/default'')"
    by (intro exI [of _ members]) simp
  from a [THEN conjunct2, THEN mp, OF disjI2, OF notif(1)] obtain members where
    "Notification_MarshalJSON received_notification = Inr (JObject members)"
    "Metadata received_notification = [] \<longrightarrow>
       map_of members ''metadata'' = None \<and> ''metadata'' \<notin> fst ` set members"
    "From received_notification = ?to \<and> ''limeprotocol.org'' \<noteq> [] \<and> ''default'' \<noteq> [] \<longrightarrow>
       map_of members ''from''
         = Some (JString (''golang'' @ ''@'' @ ''limeprotocol.org'' @ ''/'' @ ''default''))"
    by (elim exE conjE) (rule that)
  with notif ne
  have 6: "\<exists>members. Notification_MarshalJSON received_notification = Inr (JObject members)
        \<and> ''metadata'' \<notin> fst ` set members
        \<and> map_of members ''from'' = Some (JString ''golang@limeprotocol.org/default'')"
    by (intro exI [of _ members]) simp
  have 1: "Message_MarshalJSON metadata_message
     = Inr (JObject [(''id'', JString ''4609d0a3-00eb-4e16-9d44-27d115c6eb31''),
               (''to'', JString ''golang@limeprotocol.org/default''),
               (''type'', JString ''text/plain''),
               (''content'', JString ''Hello world''),
               (''metadata'', JObject [(''property1'', JString ''value1''),
                                       (''property2'', JString ''value2'')])])"
    using TestMessage_MarshalJSON_Metadata by (simp add: test_envelope_def)
  have 2: "Message_MarshalJSON createMessage
     = Inr (JObject [(''id'', JString ''4609d0a3-00eb-4e16-9d44-27d115c6eb31''),
               (''to'', JString ''golang@limeprotocol.org/default''),
               (''type'', JString ''text/plain''),
               (''content'', JString ''Hello world'')])"
    using TestMessage_MarshalJSON_TextPlain by (simp add: test_envelope_def)
  have 3: "Notification_MarshalJSON received_notification
     = Inr (JObject [(''id'', JString ''4609d0a3-00eb-4e16-9d44-27d115c6eb31''),
               (''from'', JString ''golang@limeprotocol.org/default''),
               (''event'', JString ''received'')])"
    by (simp add: Notification_MarshalJSON_def Notification_toRawEnvelope_def
        received_notification_def zero_Notification_def EnvelopeBase_ToRawEnvelope_def
        node_pointer_def zero_Node_def json_Marshal_RawEnvelope_def json_of_event_def
        json_of_type_def NotificationEvent_MarshalText_def NotificationEvent_Validate_def
        NotificationEventReceived_def)
  from 1 2 3 4 5 6 show ?thesis by (intro conjI)
qed

subsection \<open>Round trip\<close>

























lemmas populate_defs = Message_UnmarshalJSON_def Message_Populate_def EnvelopeBase_Populate_def
  UnmarshalDocument_def GetDocumentFactory_def default_registry_def RegisterDocumentFactory_def
  documentFactories_def mediaTypeTextPlain_def mediaTypeApplicationJson_def MediaTypeText_def
  MediaTypeApplication_def


text \<open>TestMessage\_MarshalJSON\_ApplicationJson and TestMessage\_MarshalJSON\_TextUnknownPlain.\<close>

lemma TestMessage_MarshalJSON_ApplicationJson:
  "Message_MarshalJSON json_message
     = Inr (test_envelope ''application/json'' (JObject test_document) [])"
  by (simp add: json_message_def createMessage_def marshal_test_document_def
      test_document_def marshal_defs)

lemma TestMessage_MarshalJSON_TextUnknownPlain:
  "Message_MarshalJSON unknown_plain_message
     = Inr (test_envelope ''text/unknown'' (JString ''Hello world'') [])"
  by (simp add: unknown_plain_message_def createMessage_def marshal_defs)














lemma TestMessage_UnmarshalJSON_Metadata:
  "Message_UnmarshalJSON default_registry
     (test_envelope ''text/plain'' (JString ''Hello world'')
        [(''metadata'', JObject [(''property1'', JString ''value1''),
                                 (''property2'', JString ''value2'')])]) zero_Message
   = (None, metadata_message)"
  by (simp add: test_envelope_def unmarshal_defs populate_defs metadata_message_def
      createMessage_def SetContent_def zero_Message_def zero_Node_def)



end
